theory Spec2Isabelle
  imports Complex_Main "HOL-Library.Multiset"
begin

section \<open>The host's objects\<close>

text \<open>
  \<^verbatim>\<open>kdmain.c\<close> is the CPython binding of the k-d tree and smoothing engine. Its functions
  receive Python objects, read and rebind numpy arrays, and keep C structures behind
  capsules. The model keeps what the binding can observe of a numpy array: its data type
  descriptor (\<^verbatim>\<open>PyArray_DESCR\<close>), its dimensions (\<^verbatim>\<open>PyArray_DIM\<close>) and its elements in
  row-major order. Doubles are idealised as reals. An array is named by its address; the
  reference count of the object at an address is \<open>ob_refcnt\<close>.
\<close>

type_synonym addr = nat

record PyArray_Descr =
  kind :: char
  elsize :: nat

record ndarray =
  descr :: "PyArray_Descr option"
  dims :: "int list"
  elems :: "real list"

text \<open>
  A Python object as the binding sees it. A list item can be \<^verbatim>\<open>NULL\<close> (\<open>None\<close> here): that is
  what \<^verbatim>\<open>PyList_SetItem\<close> stores when it is handed a \<^verbatim>\<open>NULL\<close> pointer. A capsule carries
  the pointer given to \<^verbatim>\<open>PyCapsule_New\<close>.
\<close>

datatype pyobj =
    PyNone
  | PyLong int
  | PyFloat real
  | PyList "pyobj option list"
  | PyArray addr
  | PyCapsule nat

datatype pyexc =
    ValueError string
  | TypeError string
  | RuntimeError string
  | OverflowError string

text \<open>A C function of the module returns an object, or \<^verbatim>\<open>NULL\<close> with an exception set.
  An exception left pending by a call that returns an object is not recorded.\<close>

type_synonym pyresult = "pyexc + pyobj"

section \<open>The structures of kd.h and smooth.h\<close>

text \<open>
  \<^verbatim>\<open>kd.h\<close> and \<^verbatim>\<open>smooth.h\<close> are not among the sources. The records below hold the fields
  that \<^verbatim>\<open>kdmain.c\<close> reads and writes (\<^verbatim>\<open>iOrder\<close>, \<^verbatim>\<open>iMark\<close>, \<^verbatim>\<open>nParticles\<close>, \<^verbatim>\<open>nActive\<close>,
  \<^verbatim>\<open>p\<close>, the six \<^verbatim>\<open>pNumpy...\<close> pointers, \<^verbatim>\<open>pi\<close>, \<^verbatim>\<open>pList\<close>, \<^verbatim>\<open>fList\<close>, \<^verbatim>\<open>kd\<close>,
  \<^verbatim>\<open>warnings\<close>), and, from the specification's data model, the bucket capacity, the tree
  over the particle array and the session's target neighbour count. The field \<^verbatim>\<open>p\<close> is
  \<open>kd_p\<close> here, \<^verbatim>\<open>pi\<close> is \<open>smx_pi\<close> and \<^verbatim>\<open>kd\<close> is \<open>smx_kd\<close>.
\<close>

record PARTICLE =
  iOrder :: int
  iMark :: int

datatype kdn =
    Leaf "PARTICLE list"
  | Node nat real kdn kdn

record kdContext =
  nBucket :: int
  nParticles :: int
  nActive :: int
  kd_p :: "PARTICLE list"
  kdNodes :: "kdn option"
  pNumpyPos :: "addr option"
  pNumpyMass :: "addr option"
  pNumpySmooth :: "addr option"
  pNumpyDen :: "addr option"
  pNumpyQty :: "addr option"
  pNumpyQtySmoothed :: "addr option"

record smContext =
  smx_kd :: nat
  nSmooth :: int
  smx_pi :: int
  pList :: "int list"
  fList :: "real list"
  warnings :: bool

text \<open>
  The state the binding works on: reference counts and contents of the host's arrays, the
  tree contexts and the smoothing contexts that capsules point to, and the next free
  pointer. \<open>pin_global\<close> is the claim cursor that the workers of a pipeline run share
  (section 5 of the specification); \<^verbatim>\<open>kdmain.c\<close> reaches it only through \<^verbatim>\<open>smGetNext\<close>.
\<close>

record machine =
  ob_refcnt :: "addr \<Rightarrow> int"
  arrays :: "addr \<Rightarrow> ndarray"
  kd_heap :: "nat \<Rightarrow> kdContext option"
  smx_heap :: "nat \<Rightarrow> smContext option"
  next_ptr :: nat
  pin_global :: int

text \<open>
  What a call does: it returns (a result and the new state), or the C standard and the
  CPython API give it no meaning (an uninitialised or \<^verbatim>\<open>NULL\<close> pointer is dereferenced, an
  object that is no array is read as one, an array is read out of range, a value is
  narrowed to a float that cannot hold it), or it does not return: it runs for ever or an
  assertion aborts the process.
\<close>

datatype 'a outcome = Returns 'a | Undefined | NoReturn

section \<open>CPython primitives\<close>

definition Py_INCREF :: "addr \<Rightarrow> machine \<Rightarrow> machine" where
  "Py_INCREF a m = m\<lparr>ob_refcnt := (ob_refcnt m)(a := ob_refcnt m a + 1)\<rparr>"

definition Py_XDECREF :: "addr option \<Rightarrow> machine \<Rightarrow> machine" where
  "Py_XDECREF x m =
     (case x of
        None \<Rightarrow> m
      | Some a \<Rightarrow> m\<lparr>ob_refcnt := (ob_refcnt m)(a := ob_refcnt m a - 1)\<rparr>)"

text \<open>\<^verbatim>\<open>PyCapsule_GetPointer(obj, NULL)\<close>: the capsule's pointer, or \<^verbatim>\<open>NULL\<close> with a
  \<^verbatim>\<open>ValueError\<close> set when the object is no capsule.\<close>

definition PyCapsule_GetPointer :: "pyobj \<Rightarrow> nat option" where
  "PyCapsule_GetPointer obj = (case obj of PyCapsule k \<Rightarrow> Some k | _ \<Rightarrow> None)"

definition bad_capsule :: pyexc where
  "bad_capsule = ValueError ''PyCapsule_GetPointer called with invalid PyCapsule object''"

text \<open>The format unit \<^verbatim>\<open>i\<close> of \<^verbatim>\<open>PyArg_ParseTuple\<close> accepts a Python integer in the range
  of a C \<^verbatim>\<open>int\<close>.\<close>

definition is_c_int :: "int \<Rightarrow> bool" where
  "is_c_int i = (- 2147483648 \<le> i \<and> i \<le> 2147483647)"

text \<open>The conversion of an \<^verbatim>\<open>npy_intp\<close> to \<^verbatim>\<open>int\<close>: the low 32 bits, read as two's
  complement.\<close>

definition c_int :: "int \<Rightarrow> int" where
  "c_int x = (x + 2147483648) mod 4294967296 - 2147483648"

section \<open>checkArray, set_arrayref, get_arrayref\<close>

text \<open>\<^verbatim>\<open>checkArray\<close> returns 1 with an exception set (\<open>Some\<close> here) or 0 (\<open>None\<close>). It looks
  at the pointer and at the descriptor's kind and element size; \<^verbatim>\<open>sizeof(double)\<close> is 8.
  It does not look at the array's dimensions.\<close>

definition checkArray :: "machine \<Rightarrow> addr option \<Rightarrow> pyexc option" where
  "checkArray m check =
     (case check of
        None \<Rightarrow> Some (ValueError ''Unspecified array in kdtree'')
      | Some a \<Rightarrow>
          (case descr (arrays m a) of
             None \<Rightarrow>
               Some (TypeError ''Incorrect numpy data type to kdtree - must match C double'')
           | Some d \<Rightarrow>
               if kind d \<noteq> CHR ''f'' \<or> elsize d \<noteq> 8
               then Some (TypeError ''Incorrect numpy data type to kdtree - must match C double'')
               else None))"

text \<open>The \<^verbatim>\<open>switch(arid)\<close> of \<^verbatim>\<open>set_arrayref\<close> and \<^verbatim>\<open>get_arrayref\<close> selects the
  field that \<^verbatim>\<open>existing\<close> points to; \<open>None\<close> is the \<^verbatim>\<open>default\<close> branch.\<close>

datatype kdfield = Smoothing | Density | Mass | Quantity | QuantitySmoothed

definition arid_field :: "int \<Rightarrow> kdfield option" where
  "arid_field arid =
     (if arid = 0 then Some Smoothing
      else if arid = 1 then Some Density
      else if arid = 2 then Some Mass
      else if arid = 3 then Some Quantity
      else if arid = 4 then Some QuantitySmoothed
      else None)"

fun field_get :: "kdfield \<Rightarrow> kdContext \<Rightarrow> addr option" where
  "field_get Smoothing kd = pNumpySmooth kd"
| "field_get Density kd = pNumpyDen kd"
| "field_get Mass kd = pNumpyMass kd"
| "field_get Quantity kd = pNumpyQty kd"
| "field_get QuantitySmoothed kd = pNumpyQtySmoothed kd"

fun field_set :: "kdfield \<Rightarrow> addr option \<Rightarrow> kdContext \<Rightarrow> kdContext" where
  "field_set Smoothing v kd = kd\<lparr>pNumpySmooth := v\<rparr>"
| "field_set Density v kd = kd\<lparr>pNumpyDen := v\<rparr>"
| "field_set Mass v kd = kd\<lparr>pNumpyMass := v\<rparr>"
| "field_set Quantity v kd = kd\<lparr>pNumpyQty := v\<rparr>"
| "field_set QuantitySmoothed v kd = kd\<lparr>pNumpyQtySmoothed := v\<rparr>"

text \<open>
  \<^verbatim>\<open>set_arrayref\<close> ignores the result of \<^verbatim>\<open>PyArg_ParseTuple(args, "OiO", ...)\<close>: when the
  arguments do not parse, \<^verbatim>\<open>kdobj\<close>, \<^verbatim>\<open>arid\<close> and \<^verbatim>\<open>arobj\<close> stay uninitialised and the
  next line reads \<^verbatim>\<open>kdobj\<close>. The array object is checked before the \<^verbatim>\<open>switch\<close> and again
  after it.
\<close>

definition set_arrayref :: "machine \<Rightarrow> pyobj list \<Rightarrow> (pyresult \<times> machine) outcome" where
  "set_arrayref m args =
     (case args of
        [kdobj, PyLong arid, arobj] \<Rightarrow>
          if \<not> is_c_int arid then Undefined
          else
            (case PyCapsule_GetPointer kdobj of
               None \<Rightarrow> Returns (Inl bad_capsule, m)
             | Some k \<Rightarrow>
                 (case arobj of
                    PyArray a \<Rightarrow>
                      (case checkArray m (Some a) of
                         Some e \<Rightarrow> Returns (Inl e, m)
                       | None \<Rightarrow>
                           (case arid_field arid of
                              None \<Rightarrow>
                                Returns (Inl (ValueError ''Unknown array to set for KD tree''), m)
                            | Some f \<Rightarrow>
                                (case checkArray m (Some a) of
                                   Some e \<Rightarrow> Returns (Inl e, m)
                                 | None \<Rightarrow>
                                     (case kd_heap m k of
                                        None \<Rightarrow> Undefined
                                      | Some kd \<Rightarrow>
                                          let m1 = Py_XDECREF (field_get f kd) m;
                                              m2 = m1\<lparr>kd_heap :=
                                                     (kd_heap m1)(k := Some (field_set f (Some a) kd))\<rparr>
                                          in Returns (Inr PyNone, Py_INCREF a m2)))))
                  | _ \<Rightarrow> Undefined))
      | _ \<Rightarrow> Undefined)"

definition get_arrayref :: "machine \<Rightarrow> pyobj list \<Rightarrow> (pyresult \<times> machine) outcome" where
  "get_arrayref m args =
     (case args of
        [kdobj, PyLong arid] \<Rightarrow>
          if \<not> is_c_int arid then Undefined
          else
            (case PyCapsule_GetPointer kdobj of
               None \<Rightarrow> Returns (Inl bad_capsule, m)
             | Some k \<Rightarrow>
                 (case arid_field arid of
                    None \<Rightarrow>
                      Returns (Inl (ValueError ''Unknown array to get from KD tree''), m)
                  | Some f \<Rightarrow>
                      (case kd_heap m k of
                         None \<Rightarrow> Undefined
                       | Some kd \<Rightarrow>
                           (case field_get f kd of
                              None \<Rightarrow> Returns (Inr PyNone, m)
                            | Some a \<Rightarrow> Returns (Inr (PyArray a), m)))))
      | _ \<Rightarrow> Undefined)"

section \<open>kdinit and kdfree\<close>

text \<open>
  \<^verbatim>\<open>kdInit\<close>, \<^verbatim>\<open>kdBuildTree\<close> and \<^verbatim>\<open>kdFinish\<close> are functions of \<^verbatim>\<open>kd.c\<close>, which is not
  among the sources: \<open>kdinit\<close> and \<open>kdfree\<close> take them as parameters. \<^verbatim>\<open>kdInit(&kd, nBucket)\<close>
  leaves a context behind the pointer (\<open>None\<close>: it leaves \<^verbatim>\<open>NULL\<close>); \<^verbatim>\<open>kdBuildTree(kd)\<close>
  reads the position array and rewrites the context, unless it does not return;
  \<^verbatim>\<open>kdFinish(kd)\<close> works on the state through the pointer.

  \<open>kdinit\<close> is the one function of the module that checks the result of
  \<^verbatim>\<open>PyArg_ParseTuple\<close>. It tests neither \<^verbatim>\<open>nBucket\<close> nor the number of rows, and it
  discards what \<^verbatim>\<open>kdInit\<close> and \<^verbatim>\<open>kdBuildTree\<close> return. The number of rows, an \<^verbatim>\<open>npy_intp\<close>, is
  stored in the \<^verbatim>\<open>int nbodies\<close>. \<^verbatim>\<open>malloc(kd->nActive*sizeof(PARTICLE))\<close> is taken to succeed
  for a count that is not negative; a negative count is, as a \<^verbatim>\<open>size_t\<close>, a size beyond
  the address space, \<^verbatim>\<open>malloc\<close> returns \<^verbatim>\<open>NULL\<close> and \<^verbatim>\<open>assert(kd->p != NULL)\<close> aborts. The mass
  object is stored unread; every later use reads it as an array, so a call whose mass
  object is no array is given no meaning.
\<close>

definition new_particles :: "int \<Rightarrow> PARTICLE list" where
  "new_particles nbodies = map (\<lambda>i. \<lparr>iOrder = int i, iMark = 1\<rparr>) [0..<nat nbodies]"

definition kdinit ::
  "(int \<Rightarrow> kdContext option) \<Rightarrow> (machine \<Rightarrow> kdContext \<Rightarrow> kdContext outcome) \<Rightarrow>
   machine \<Rightarrow> pyobj list \<Rightarrow> (pyresult \<times> machine) outcome" where
  "kdinit kdInit kdBuildTree m args =
     (case args of
        [pos, mass, PyLong nB] \<Rightarrow>
          if \<not> is_c_int nB
          then Returns (Inl (OverflowError ''signed integer out of range''), m)
          else
            (case (kdInit nB, pos, mass) of
               (Some kd0, PyArray a, PyArray b) \<Rightarrow>
                 (case dims (arrays m a) of
                    [] \<Rightarrow> Undefined
                  | d # _ \<Rightarrow>
                      let nbodies = c_int d;
                          kd1 = kd0\<lparr>nParticles := nbodies, nActive := nbodies,
                                    pNumpyPos := Some a, pNumpyMass := Some b,
                                    pNumpySmooth := None, pNumpyDen := None\<rparr>;
                          m1 = Py_INCREF b (Py_INCREF a m);
                          kd2 = kd1\<lparr>kd_p := new_particles nbodies\<rparr>
                      in if nbodies < 0 then NoReturn
                         else
                           (case kdBuildTree m1 kd2 of
                              NoReturn \<Rightarrow> NoReturn
                            | Undefined \<Rightarrow> Undefined
                            | Returns kd3 \<Rightarrow>
                                Returns (Inr (PyCapsule (next_ptr m1)),
                                  m1\<lparr>kd_heap := (kd_heap m1)(next_ptr m1 := Some kd3),
                                      next_ptr := Suc (next_ptr m1)\<rparr>)))
             | _ \<Rightarrow> Undefined)
      | _ \<Rightarrow> Returns (Inl (TypeError ''init: arguments do not match the format OOi''), m))"

text \<open>
  \<open>kdfree\<close> calls \<^verbatim>\<open>kdFinish\<close> and then drops one reference to each of the position, mass,
  smoothing and density arrays, reading the four pointers from the context after
  \<^verbatim>\<open>kdFinish\<close> has run. It writes nothing back: the pointers stay as they were.
\<close>

definition kdfree ::
  "(nat \<Rightarrow> machine \<Rightarrow> machine) \<Rightarrow> machine \<Rightarrow> pyobj list \<Rightarrow> (pyresult \<times> machine) outcome" where
  "kdfree kdFinish m args =
     (case args of
        [kdobj] \<Rightarrow>
          (case PyCapsule_GetPointer kdobj of
             None \<Rightarrow> Undefined
           | Some k \<Rightarrow>
               (case kd_heap m k of
                  None \<Rightarrow> Undefined
                | Some _ \<Rightarrow>
                    let m1 = kdFinish k m in
                    (case kd_heap m1 k of
                       None \<Rightarrow> Undefined
                     | Some kd \<Rightarrow>
                         Returns (Inr PyNone,
                           Py_XDECREF (pNumpyDen kd)
                             (Py_XDECREF (pNumpySmooth kd)
                               (Py_XDECREF (pNumpyMass kd)
                                 (Py_XDECREF (pNumpyPos kd) m1)))))))
      | _ \<Rightarrow> Undefined)"

section \<open>The query session: nn_start, nn_next, nn_stop, nn_rewind\<close>

text \<open>
  \<^verbatim>\<open>smInit\<close>, \<^verbatim>\<open>smSmoothInitStep\<close>, \<^verbatim>\<open>smSmoothStep\<close> and \<^verbatim>\<open>smFinish\<close> are functions of
  \<^verbatim>\<open>smooth.c\<close>, not among the sources, and are parameters. \<^verbatim>\<open>nn_start\<close> passes its local
  \<^verbatim>\<open>nProcs\<close> to \<^verbatim>\<open>smSmoothInitStep\<close> without ever assigning it: the value is the parameter
  \<open>nProcs\<close>.
\<close>

definition nn_start ::
  "(nat option \<Rightarrow> int \<Rightarrow> machine \<Rightarrow> smContext option) \<Rightarrow>
   (int \<Rightarrow> smContext \<Rightarrow> machine \<Rightarrow> smContext \<times> machine) \<Rightarrow> int \<Rightarrow>
   machine \<Rightarrow> pyobj list \<Rightarrow> (pyresult \<times> machine) outcome" where
  "nn_start smInit smSmoothInitStep nProcs m args =
     (case args of
        [kdobj, PyLong nS] \<Rightarrow>
          if \<not> is_c_int nS then Undefined
          else
            (case smInit (PyCapsule_GetPointer kdobj) nS m of
               None \<Rightarrow> Returns (Inl (RuntimeError ''Unable to create smoothing context''), m)
             | Some smx \<Rightarrow>
                 let (smx1, m1) = smSmoothInitStep nProcs smx m in
                 Returns (Inr (PyCapsule (next_ptr m1)),
                   m1\<lparr>smx_heap := (smx_heap m1)(next_ptr m1 := Some smx1),
                       next_ptr := Suc (next_ptr m1)\<rparr>))
      | _ \<Rightarrow> Undefined)"

text \<open>
  Modelled from the spec: the macros \<^verbatim>\<open>GET\<close>, \<^verbatim>\<open>GET2\<close> and \<^verbatim>\<open>GETSMOOTH\<close> (\<^verbatim>\<open>kd.h\<close> is not
  among the sources). The fields are one double per original particle index and the
  positions are an (n, 3) buffer, so \<^verbatim>\<open>GET(a, i)\<close> is element \<open>i\<close> of the array,
  \<^verbatim>\<open>GET2(a, i, j)\<close> is element \<open>3 i + j\<close>, and \<^verbatim>\<open>GETSMOOTH(i)\<close> is \<^verbatim>\<open>GET\<close> on the smoothing
  array at the original index of particle \<open>i\<close>, as \<open>nn_next\<close> writes it out. A read through
  a \<^verbatim>\<open>NULL\<close> pointer or out of range has no meaning (\<open>None\<close>).
\<close>

definition GET :: "machine \<Rightarrow> addr option \<Rightarrow> int \<Rightarrow> real option" where
  "GET m x i =
     (case x of
        None \<Rightarrow> None
      | Some a \<Rightarrow>
          if 0 \<le> i \<and> nat i < length (elems (arrays m a))
          then Some (elems (arrays m a) ! nat i) else None)"

text \<open>Modelled from the spec: \<^verbatim>\<open>GET2\<close> (\<^verbatim>\<open>kd.h\<close>), row \<open>i\<close> and column \<open>j\<close> of an (n, 3) buffer.\<close>

definition GET2 :: "machine \<Rightarrow> addr option \<Rightarrow> int \<Rightarrow> int \<Rightarrow> real option" where
  "GET2 m x i j = (if 0 \<le> i \<and> 0 \<le> j \<and> j < 3 then GET m x (3 * i + j) else None)"

definition particle_at :: "kdContext \<Rightarrow> int \<Rightarrow> PARTICLE option" where
  "particle_at kd i =
     (if 0 \<le> i \<and> nat i < length (kd_p kd) then Some (kd_p kd ! nat i) else None)"

text \<open>\<^verbatim>\<open>PyList_New(n)\<close> filled by the loop \<^verbatim>\<open>for (i=0; i < nCnt; i++) PyList_SetItem(...)\<close>.
  For a negative \<open>n\<close>, \<^verbatim>\<open>PyList_New\<close> returns \<^verbatim>\<open>NULL\<close> and the loop does not run.\<close>

definition filled_list :: "int \<Rightarrow> pyobj list \<Rightarrow> pyobj option outcome" where
  "filled_list n items =
     (if n < 0 then Returns None
      else if nat n \<le> length items then Returns (Some (PyList (map Some (take (nat n) items))))
      else Undefined)"

text \<open>
  \<open>nn_next\<close> tests the count returned by \<^verbatim>\<open>smSmoothStep\<close> with \<^verbatim>\<open>nCnt != 0\<close>. The second list
  item is read from the smoothing array of the session's tree at the original index of
  particle \<^verbatim>\<open>smx->pi\<close>.
\<close>

definition nn_next ::
  "(smContext \<Rightarrow> int \<Rightarrow> machine \<Rightarrow> int \<times> smContext \<times> machine) \<Rightarrow>
   machine \<Rightarrow> pyobj list \<Rightarrow> (pyresult \<times> machine) outcome" where
  "nn_next smSmoothStep m args =
     (case args of
        [kdobj, smxobj] \<Rightarrow>
          (case PyCapsule_GetPointer smxobj of
             None \<Rightarrow> Undefined
           | Some s \<Rightarrow>
               (case smx_heap m s of
                  None \<Rightarrow> Undefined
                | Some smx0 \<Rightarrow>
                    let (nCnt, smx, m0) = smSmoothStep smx0 0 m;
                        m1 = m0\<lparr>smx_heap := (smx_heap m0)(s := Some smx)\<rparr>
                    in if nCnt \<noteq> 0
                       then
                         (case (filled_list nCnt (map PyLong (pList smx)),
                                filled_list nCnt (map PyFloat (fList smx)),
                                kd_heap m1 (smx_kd smx)) of
                            (Returns nnList, Returns nnDist, Some kd) \<Rightarrow>
                              (case particle_at kd (smx_pi smx) of
                                 None \<Rightarrow> Undefined
                               | Some q \<Rightarrow>
                                   (case GET m1 (pNumpySmooth kd) (iOrder q) of
                                      None \<Rightarrow> Undefined
                                    | Some h \<Rightarrow>
                                        Returns (Inr (PyList
                                          [Some (PyLong (smx_pi smx)), Some (PyFloat h),
                                           nnList, nnDist]), m1)))
                          | _ \<Rightarrow> Undefined)
                       else Returns (Inr PyNone, m1)))
      | _ \<Rightarrow> Undefined)"

definition nn_stop ::
  "(nat \<Rightarrow> machine \<Rightarrow> machine) \<Rightarrow> machine \<Rightarrow> pyobj list \<Rightarrow> (pyresult \<times> machine) outcome" where
  "nn_stop smFinish m args =
     (case args of
        [kdobj, smxobj] \<Rightarrow>
          (case PyCapsule_GetPointer smxobj of
             None \<Rightarrow> Undefined
           | Some s \<Rightarrow> Returns (Inr PyNone, smFinish s m))
      | _ \<Rightarrow> Undefined)"

definition nn_rewind ::
  "(int \<Rightarrow> smContext \<Rightarrow> machine \<Rightarrow> smContext \<times> machine) \<Rightarrow>
   machine \<Rightarrow> pyobj list \<Rightarrow> (pyresult \<times> machine) outcome" where
  "nn_rewind smSmoothInitStep m args =
     (case args of
        [smxobj] \<Rightarrow>
          (case PyCapsule_GetPointer smxobj of
             None \<Rightarrow> Undefined
           | Some s \<Rightarrow>
               (case smx_heap m s of
                  None \<Rightarrow> Undefined
                | Some smx \<Rightarrow>
                    let (smx1, m1) = smSmoothInitStep 1 smx m in
                    Returns (Inr (PyCapsule s),
                      m1\<lparr>smx_heap := (smx_heap m1)(s := Some smx1)\<rparr>)))
      | _ \<Rightarrow> Undefined)"

section \<open>domain_decomposition\<close>

text \<open>\<^verbatim>\<open>smDomainDecomposition\<close> (\<^verbatim>\<open>smooth.c\<close>, not among the sources) is a parameter that works
  on the state through the tree's pointer.\<close>

definition domain_decomposition ::
  "(nat \<Rightarrow> int \<Rightarrow> machine \<Rightarrow> machine) \<Rightarrow>
   machine \<Rightarrow> pyobj list \<Rightarrow> (pyresult \<times> machine) outcome" where
  "domain_decomposition smDomainDecomposition m args =
     (case args of
        [smxobj, PyLong nproc] \<Rightarrow>
          if \<not> is_c_int nproc then Undefined
          else
            (case PyCapsule_GetPointer smxobj of
               None \<Rightarrow> Returns (Inl bad_capsule, m)
             | Some k \<Rightarrow>
                 (case kd_heap m k of
                    None \<Rightarrow> Undefined
                  | Some kd \<Rightarrow>
                      (case checkArray m (pNumpySmooth kd) of
                         Some e \<Rightarrow> Returns (Inl e, m)
                       | None \<Rightarrow>
                           if nproc < 0
                           then Returns (Inl (ValueError ''Invalid number of processors''), m)
                           else Returns (Inr PyNone, smDomainDecomposition k nproc m))))
      | _ \<Rightarrow> Undefined)"

section \<open>Single precision\<close>

text \<open>
  The locals \<^verbatim>\<open>hsm\<close> and \<^verbatim>\<open>ri\<close> of \<open>populate\<close> are C floats. A double stored to them is
  narrowed to the nearest IEEE binary32 value, ties to even, and \<^verbatim>\<open>4*hsm*hsm\<close> is float
  arithmetic: each product is rounded the same way. \<open>float_exponent\<close> is the exponent of
  the binade of a value, at least \<open>-126\<close> (below it the floats are the subnormals, spaced
  as in the lowest binade); the floats of a binade are the multiples of \<open>2\<close> to the
  exponent less 23, and \<open>float_round\<close> is the nearest of them. A value that rounds to
  magnitude \<open>2 ^ 128\<close> or more is no finite float: C gives the conversion of such a double
  no defined result, and the state here has no infinities to hold such a product
  (\<open>None\<close>).
\<close>

definition pow2 :: "int \<Rightarrow> real" where
  "pow2 e = (if 0 \<le> e then 2 ^ nat e else 1 / 2 ^ nat (- e))"

definition float_exponent :: "real \<Rightarrow> int" where
  "float_exponent x =
     (case find (\<lambda>e. \<bar>x\<bar> < pow2 (e + 1)) [- 126..127] of
        Some e \<Rightarrow> e
      | None \<Rightarrow> 127)"

definition round_half_even :: "real \<Rightarrow> int" where
  "round_half_even y =
     (if y - of_int \<lfloor>y\<rfloor> < 1 / 2 then \<lfloor>y\<rfloor>
      else if 1 / 2 < y - of_int \<lfloor>y\<rfloor> then \<lfloor>y\<rfloor> + 1
      else if even \<lfloor>y\<rfloor> then \<lfloor>y\<rfloor>
      else \<lfloor>y\<rfloor> + 1)"

definition float_round :: "real \<Rightarrow> real" where
  "float_round x =
     of_int (round_half_even (x / pow2 (float_exponent x - 23))) * pow2 (float_exponent x - 23)"

definition to_float :: "real \<Rightarrow> real option" where
  "to_float x = (if \<bar>float_round x\<bar> < pow2 128 then Some (float_round x) else None)"

definition float_mul :: "real \<Rightarrow> real \<Rightarrow> real option" where
  "float_mul a b = to_float (a * b)"

text \<open>The argument \<^verbatim>\<open>4*hsm*hsm\<close> of \<^verbatim>\<open>smBallGather\<close>: the float product of \<open>4\<close> and \<^verbatim>\<open>hsm\<close>,
  times \<^verbatim>\<open>hsm\<close>.\<close>

definition ball_radius2 :: "real \<Rightarrow> real option" where
  "ball_radius2 hsm = (case float_mul 4 hsm of None \<Rightarrow> None | Some t \<Rightarrow> float_mul t hsm)"

section \<open>populate\<close>

text \<open>
  The functions of \<^verbatim>\<open>smooth.c\<close> that \<open>populate\<close> calls are parameters:
  \<^verbatim>\<open>smInitThreadLocalCopy\<close> (the worker's private copy of the session),
  \<^verbatim>\<open>smSmoothStep\<close>, \<^verbatim>\<open>smGetNext\<close> (the claim of the next particle), \<^verbatim>\<open>smBallGather\<close> (it
  fills the copy's \<^verbatim>\<open>pList\<close> and \<^verbatim>\<open>fList\<close> and returns the count), \<^verbatim>\<open>smDensity\<close> and
  \<^verbatim>\<open>smFinishThreadLocalCopy\<close>.
\<close>

record smooth_fns =
  smInitThreadLocalCopy :: "smContext \<Rightarrow> smContext"
  smSmoothStep :: "smContext \<Rightarrow> int \<Rightarrow> machine \<Rightarrow> int \<times> smContext \<times> machine"
  smGetNext :: "smContext \<Rightarrow> machine \<Rightarrow> int \<times> smContext \<times> machine"
  smBallGather :: "smContext \<Rightarrow> real \<Rightarrow> real \<times> real \<times> real \<Rightarrow> machine \<Rightarrow> int \<times> smContext"
  smDensity :: "smContext \<Rightarrow> int \<Rightarrow> int \<Rightarrow> int list \<Rightarrow> real list \<Rightarrow> machine \<Rightarrow> machine"
  smFinishThreadLocalCopy :: "smContext \<Rightarrow> machine \<Rightarrow> machine"

text \<open>The checks at the head of \<open>populate\<close>, in the order of the source; the first failure
  is the one reported.\<close>

definition populate_checks :: "machine \<Rightarrow> kdContext \<Rightarrow> int \<Rightarrow> pyexc option" where
  "populate_checks m kd propid =
     (case checkArray m (pNumpySmooth kd) of
        Some e \<Rightarrow> Some e
      | None \<Rightarrow>
          (case (if propid > 1
                 then (case checkArray m (pNumpyDen kd) of
                         Some e \<Rightarrow> Some e
                       | None \<Rightarrow>
                           (case checkArray m (pNumpyMass kd) of
                              Some e \<Rightarrow> Some e
                            | None \<Rightarrow> checkArray m (pNumpySmooth kd)))
                 else None) of
             Some e \<Rightarrow> Some e
           | None \<Rightarrow>
               if propid > 2
               then (case checkArray m (pNumpyQty kd) of
                       Some e \<Rightarrow> Some e
                     | None \<Rightarrow> checkArray m (pNumpyQtySmoothed kd))
               else None))"

text \<open>\<^verbatim>\<open>case PROPID_HSM\<close>: at most \<^verbatim>\<open>nbodies\<close> calls of \<^verbatim>\<open>smSmoothStep\<close>, left at the first
  call that returns \<open>-1\<close> (the source's comment there: nothing more to do).\<close>

fun hsm_loop ::
  "smooth_fns \<Rightarrow> int \<Rightarrow> nat \<Rightarrow> smContext \<Rightarrow> machine \<Rightarrow> smContext \<times> machine" where
  "hsm_loop F procid 0 smx m = (smx, m)"
| "hsm_loop F procid (Suc n) smx m =
     (let (nCnt, smx1, m1) = smSmoothStep F smx procid m
      in if nCnt = - 1 then (smx1, m1) else hsm_loop F procid n smx1 m1)"

text \<open>
  One pass of the body of the \<^verbatim>\<open>while\<close> loop of \<^verbatim>\<open>case PROPID_RHO\<close> for the claimed
  particle \<open>i\<close>: copy the particle's position into the floats \<^verbatim>\<open>ri\<close>, read its smoothing
  length into the float \<^verbatim>\<open>hsm\<close>, gather the ball of squared radius \<^verbatim>\<open>4*hsm*hsm\<close> around
  \<^verbatim>\<open>ri\<close>, call \<^verbatim>\<open>smDensity\<close> on the gathered lists, claim the next particle.
\<close>

definition rho_body ::
  "smooth_fns \<Rightarrow> nat \<Rightarrow> int \<Rightarrow> smContext \<Rightarrow> machine \<Rightarrow> (int \<times> smContext \<times> machine) outcome" where
  "rho_body F k i smx m =
     (case kd_heap m k of
        None \<Rightarrow> Undefined
      | Some kd \<Rightarrow>
          (case particle_at kd i of
             None \<Rightarrow> Undefined
           | Some q \<Rightarrow>
               (case (GET2 m (pNumpyPos kd) (iOrder q) 0, GET2 m (pNumpyPos kd) (iOrder q) 1,
                      GET2 m (pNumpyPos kd) (iOrder q) 2, GET m (pNumpySmooth kd) (iOrder q)) of
                  (Some x, Some y, Some z, Some h) \<Rightarrow>
                    (case (to_float x, to_float y, to_float z, to_float h) of
                       (Some r0, Some r1, Some r2, Some hsm) \<Rightarrow>
                         (case ball_radius2 hsm of
                            None \<Rightarrow> Undefined
                          | Some fBall2 \<Rightarrow>
                              let (nCnt, smx1) = smBallGather F smx fBall2 (r0, r1, r2) m;
                                  m1 = smDensity F smx1 i nCnt (pList smx1) (fList smx1) m
                              in Returns (smGetNext F smx1 m1))
                     | _ \<Rightarrow> Undefined)
                | _ \<Rightarrow> Undefined)))"

partial_function (option) rho_loop ::
  "smooth_fns \<Rightarrow> nat \<Rightarrow> int \<Rightarrow> int \<Rightarrow> smContext \<Rightarrow> machine \<Rightarrow>
   (smContext \<times> machine) outcome option" where
  "rho_loop F k nbodies i smx m =
     (if i < nbodies
      then (case rho_body F k i smx m of
              Returns (i1, smx1, m1) \<Rightarrow> rho_loop F k nbodies i1 smx1 m1
            | Undefined \<Rightarrow> Some Undefined
            | NoReturn \<Rightarrow> None)
      else Some (Returns (smx, m)))"

text \<open>
  \<open>populate\<close> ignores the result of \<^verbatim>\<open>PyArg_ParseTuple(args, "OOii", ...)\<close>. It reads the
  number of rows of the position array, runs the checks, makes the worker's copy of the
  session and resets its \<^verbatim>\<open>warnings\<close> and \<^verbatim>\<open>pi\<close>, runs the loop that the property selects
  (none for a property other than \<^verbatim>\<open>PROPID_HSM\<close> = 1 and \<^verbatim>\<open>PROPID_RHO\<close> = 2) and finishes
  the copy.
\<close>

definition populate ::
  "smooth_fns \<Rightarrow> machine \<Rightarrow> pyobj list \<Rightarrow> (pyresult \<times> machine) outcome" where
  "populate F m args =
     (case args of
        [kdobj, smxobj, PyLong propid, PyLong procid] \<Rightarrow>
          if \<not> is_c_int propid \<or> \<not> is_c_int procid then Undefined
          else
            (case PyCapsule_GetPointer kdobj of
               None \<Rightarrow> Undefined
             | Some k \<Rightarrow>
                 (case kd_heap m k of
                    None \<Rightarrow> Undefined
                  | Some kd \<Rightarrow>
                      (case pNumpyPos kd of
                         None \<Rightarrow> Undefined
                       | Some pa \<Rightarrow>
                           (case dims (arrays m pa) of
                              [] \<Rightarrow> Undefined
                            | nbodies # _ \<Rightarrow>
                                (case populate_checks m kd propid of
                                   Some e \<Rightarrow> Returns (Inl e, m)
                                 | None \<Rightarrow>
                                     (case PyCapsule_GetPointer smxobj of
                                        None \<Rightarrow> Undefined
                                      | Some s \<Rightarrow>
                                          (case smx_heap m s of
                                             None \<Rightarrow> Undefined
                                           | Some smx_global \<Rightarrow>
                                               let smx_local =
                                                     (smInitThreadLocalCopy F smx_global)
                                                       \<lparr>warnings := False, smx_pi := 0\<rparr>
                                               in if propid = 1
                                                  then
                                                    (let (smx1, m1) =
                                                       hsm_loop F procid (nat nbodies) smx_local m
                                                     in Returns (Inr PyNone,
                                                          smFinishThreadLocalCopy F smx1 m1))
                                                  else if propid = 2
                                                  then
                                                    (let (i, smx0, m0) = smGetNext F smx_local m
                                                     in case rho_loop F k nbodies i smx0 m0 of
                                                          None \<Rightarrow> NoReturn
                                                        | Some Undefined \<Rightarrow> Undefined
                                                        | Some NoReturn \<Rightarrow> NoReturn
                                                        | Some (Returns (smx1, m1)) \<Rightarrow>
                                                            Returns (Inr PyNone,
                                                              smFinishThreadLocalCopy F smx1 m1))
                                                  else Returns (Inr PyNone,
                                                         smFinishThreadLocalCopy F smx_local m))))))))
      | _ \<Rightarrow> Undefined)"

section \<open>The method table\<close>

text \<open>
  \<^verbatim>\<open>kdmain_methods\<close> binds each name the host can call to a C function. The functions of
  \<^verbatim>\<open>kd.c\<close> and \<^verbatim>\<open>smooth.c\<close> that the entries need are collected in \<open>extern\<close>, with the value that
  \<^verbatim>\<open>nn_start\<close> finds in its unassigned local.
\<close>

record extern =
  ext_kdInit :: "int \<Rightarrow> kdContext option"
  ext_kdBuildTree :: "machine \<Rightarrow> kdContext \<Rightarrow> kdContext outcome"
  ext_kdFinish :: "nat \<Rightarrow> machine \<Rightarrow> machine"
  ext_smInit :: "nat option \<Rightarrow> int \<Rightarrow> machine \<Rightarrow> smContext option"
  ext_smSmoothInitStep :: "int \<Rightarrow> smContext \<Rightarrow> machine \<Rightarrow> smContext \<times> machine"
  ext_smFinish :: "nat \<Rightarrow> machine \<Rightarrow> machine"
  ext_smDomainDecomposition :: "nat \<Rightarrow> int \<Rightarrow> machine \<Rightarrow> machine"
  ext_smooth :: smooth_fns
  ext_nProcs :: int

definition kdmain_methods ::
  "extern \<Rightarrow> (string \<times> (machine \<Rightarrow> pyobj list \<Rightarrow> (pyresult \<times> machine) outcome)) list" where
  "kdmain_methods X =
     [(''init'', kdinit (ext_kdInit X) (ext_kdBuildTree X)),
      (''free'', kdfree (ext_kdFinish X)),
      (''nn_start'', nn_start (ext_smInit X) (ext_smSmoothInitStep X) (ext_nProcs X)),
      (''nn_next'', nn_next (smSmoothStep (ext_smooth X))),
      (''nn_stop'', nn_stop (ext_smFinish X)),
      (''nn_rewind'', nn_rewind (ext_smSmoothInitStep X)),
      (''set_arrayref'', set_arrayref),
      (''get_arrayref'', set_arrayref),
      (''domain_decomposition'', domain_decomposition (ext_smDomainDecomposition X)),
      (''populate'', populate (ext_smooth X))]"

text \<open>A call of the module's method \<open>name\<close> by the host: the entry of the table, applied.
  A name the table lacks is no attribute of the module (\<open>None\<close>).\<close>

definition kdmain_call ::
  "extern \<Rightarrow> string \<Rightarrow> machine \<Rightarrow> pyobj list \<Rightarrow> (pyresult \<times> machine) outcome option" where
  "kdmain_call X name m args =
     (case map_of (kdmain_methods X) name of
        None \<Rightarrow> None
      | Some f \<Rightarrow> Some (f m args))"

section \<open>What a call did\<close>

text \<open>The exception a call raised, the object it returned and the state it left, when there
  is one.\<close>

definition raised :: "(pyresult \<times> machine) outcome \<Rightarrow> pyexc option" where
  "raised r = (case r of Returns (Inl e, _) \<Rightarrow> Some e | _ \<Rightarrow> None)"

definition returned :: "(pyresult \<times> machine) outcome \<Rightarrow> pyobj option" where
  "returned r = (case r of Returns (Inr v, _) \<Rightarrow> Some v | _ \<Rightarrow> None)"

definition state_after :: "(pyresult \<times> machine) outcome \<Rightarrow> machine option" where
  "state_after r = (case r of Returns (_, m) \<Rightarrow> Some m | _ \<Rightarrow> None)"

definition refcnt_after :: "(pyresult \<times> machine) outcome \<Rightarrow> addr \<Rightarrow> int option" where
  "refcnt_after r a = (case r of Returns (_, m) \<Rightarrow> Some (ob_refcnt m a) | _ \<Rightarrow> None)"

text \<open>An array whose elements are C doubles, and a pointer that is bound to one.\<close>

definition is_double_array :: "machine \<Rightarrow> addr \<Rightarrow> bool" where
  "is_double_array m a =
     (case descr (arrays m a) of
        None \<Rightarrow> False
      | Some d \<Rightarrow> kind d = CHR ''f'' \<and> elsize d = 8)"

definition bound_double :: "machine \<Rightarrow> addr option \<Rightarrow> bool" where
  "bound_double m x = (case x of None \<Rightarrow> False | Some a \<Rightarrow> is_double_array m a)"

text \<open>The arguments that \<^verbatim>\<open>PyArg_ParseTuple(args, "OOi", ...)\<close> accepts.\<close>

definition parses_OOi :: "pyobj list \<Rightarrow> bool" where
  "parses_OOi args = (case args of [_, _, PyLong i] \<Rightarrow> is_c_int i | _ \<Rightarrow> False)"

text \<open>Teardown called a second time on the same handle.\<close>

definition kdfree_twice ::
  "(nat \<Rightarrow> machine \<Rightarrow> machine) \<Rightarrow> machine \<Rightarrow> pyobj list \<Rightarrow> (pyresult \<times> machine) outcome" where
  "kdfree_twice kdFinish m args =
     (case kdfree kdFinish m args of
        Returns (_, m1) \<Rightarrow> kdfree kdFinish m1 args
      | r \<Rightarrow> r)"

section \<open>The tree build, from the specification\<close>

text \<open>
  \<^verbatim>\<open>kdInit\<close>, \<^verbatim>\<open>kdBuildTree\<close> and \<^verbatim>\<open>kdFinish\<close> are functions of \<^verbatim>\<open>kd.c\<close>, which is not among
  the sources. This section gives them as the specification describes them (sections 3
  and 4.1); \<open>kdinit\<close> and \<open>kdfree\<close> above take them as parameters.
\<close>

text \<open>Modelled from the spec: \<^verbatim>\<open>kdInit\<close> (\<^verbatim>\<open>kd.c\<close>). A tree is created from a bucket-size
  parameter, with no particle and no field bound.\<close>

definition kdInit_spec :: "int \<Rightarrow> kdContext option" where
  "kdInit_spec nB =
     Some \<lparr>nBucket = nB, nParticles = 0, nActive = 0, kd_p = [], kdNodes = None,
           pNumpyPos = None, pNumpyMass = None, pNumpySmooth = None, pNumpyDen = None,
           pNumpyQty = None, pNumpyQtySmoothed = None\<rparr>"

text \<open>Modelled from the spec: the position of a particle, for \<^verbatim>\<open>kdBuildTree\<close> (\<^verbatim>\<open>kd.c\<close>). It
  is read from the position buffer at the particle's original index; \<open>readable\<close> says that
  the three reads are in range.\<close>

definition readable :: "machine \<Rightarrow> kdContext \<Rightarrow> PARTICLE \<Rightarrow> bool" where
  "readable m kd q =
     (GET2 m (pNumpyPos kd) (iOrder q) 0 \<noteq> None \<and> GET2 m (pNumpyPos kd) (iOrder q) 1 \<noteq> None
      \<and> GET2 m (pNumpyPos kd) (iOrder q) 2 \<noteq> None)"

definition coord :: "machine \<Rightarrow> kdContext \<Rightarrow> PARTICLE \<Rightarrow> nat \<Rightarrow> real" where
  "coord m kd q d = (case GET2 m (pNumpyPos kd) (iOrder q) (int d) of Some x \<Rightarrow> x | None \<Rightarrow> 0)"

text \<open>Modelled from the spec: the choice of the split in \<^verbatim>\<open>kdBuildTree\<close> (\<^verbatim>\<open>kd.c\<close>). The axis is
  the one of greatest spatial extent among the node's particles, x before y before z
  when extents are equal. The particles are partitioned about the median position along
  that axis: the in-place partition is a sort by the coordinate, cut in the middle, and
  the split value is the coordinate of the first particle of the upper half.\<close>

definition extent :: "(PARTICLE \<Rightarrow> nat \<Rightarrow> real) \<Rightarrow> PARTICLE list \<Rightarrow> nat \<Rightarrow> real" where
  "extent r ps d =
     (case map (\<lambda>q. r q d) ps of
        [] \<Rightarrow> 0
      | x # xs \<Rightarrow> fold max xs x - fold min xs x)"

definition split_axis :: "(PARTICLE \<Rightarrow> nat \<Rightarrow> real) \<Rightarrow> PARTICLE list \<Rightarrow> nat" where
  "split_axis r ps =
     (if extent r ps 1 \<le> extent r ps 0 \<and> extent r ps 2 \<le> extent r ps 0 then 0
      else if extent r ps 2 \<le> extent r ps 1 then 1
      else 2)"

definition by_axis :: "(PARTICLE \<Rightarrow> nat \<Rightarrow> real) \<Rightarrow> PARTICLE list \<Rightarrow> PARTICLE list" where
  "by_axis r ps = sort_key (\<lambda>q. r q (split_axis r ps)) ps"

definition lower_part :: "(PARTICLE \<Rightarrow> nat \<Rightarrow> real) \<Rightarrow> PARTICLE list \<Rightarrow> PARTICLE list" where
  "lower_part r ps = take (length ps div 2) (by_axis r ps)"

definition upper_part :: "(PARTICLE \<Rightarrow> nat \<Rightarrow> real) \<Rightarrow> PARTICLE list \<Rightarrow> PARTICLE list" where
  "upper_part r ps = drop (length ps div 2) (by_axis r ps)"

definition split_value :: "(PARTICLE \<Rightarrow> nat \<Rightarrow> real) \<Rightarrow> PARTICLE list \<Rightarrow> real" where
  "split_value r ps =
     (case upper_part r ps of [] \<Rightarrow> 0 | q # _ \<Rightarrow> r q (split_axis r ps))"

text \<open>Modelled from the spec: the recursion of \<^verbatim>\<open>kdBuildTree\<close> (\<^verbatim>\<open>kd.c\<close>). Stop and make a
  leaf when the particle count is at most the bucket capacity, otherwise split and
  recurse on each half. It need not return: with a bucket capacity below 1 a node of one
  particle is split for ever.\<close>

partial_function (option) kdBuild ::
  "int \<Rightarrow> (PARTICLE \<Rightarrow> nat \<Rightarrow> real) \<Rightarrow> PARTICLE list \<Rightarrow> kdn option" where
  "kdBuild nB r ps =
     (if int (length ps) \<le> nB then Some (Leaf ps)
      else Option.bind (kdBuild nB r (lower_part r ps)) (\<lambda>lo.
           Option.bind (kdBuild nB r (upper_part r ps)) (\<lambda>hi.
           Some (Node (split_axis r ps) (split_value r ps) lo hi))))"

fun leaves :: "kdn \<Rightarrow> PARTICLE list" where
  "leaves (Leaf ps) = ps"
| "leaves (Node d v lo hi) = leaves lo @ leaves hi"

text \<open>Modelled from the spec: \<^verbatim>\<open>kdBuildTree\<close> (\<^verbatim>\<open>kd.c\<close>). The particle array is reordered in
  place: after the build it is the leaves of the tree from left to right.\<close>

definition kdBuildTree_spec :: "machine \<Rightarrow> kdContext \<Rightarrow> kdContext outcome" where
  "kdBuildTree_spec m kd =
     (if list_all (readable m kd) (kd_p kd)
      then (case kdBuild (nBucket kd) (coord m kd) (kd_p kd) of
              None \<Rightarrow> NoReturn
            | Some t \<Rightarrow> Returns (kd\<lparr>kd_p := leaves t, kdNodes := Some t\<rparr>))
      else Undefined)"

text \<open>Modelled from the spec: \<^verbatim>\<open>kdFinish\<close> (\<^verbatim>\<open>kd.c\<close>). Teardown releases the particle array
  and the node memory.\<close>

definition kdFinish_spec :: "nat \<Rightarrow> machine \<Rightarrow> machine" where
  "kdFinish_spec k m =
     (case kd_heap m k of
        None \<Rightarrow> m
      | Some kd \<Rightarrow> m\<lparr>kd_heap := (kd_heap m)(k := Some (kd\<lparr>kd_p := [], kdNodes := None\<rparr>))\<rparr>)"

text \<open>
  Modelled from the spec: \<^verbatim>\<open>smDomainDecomposition\<close> (\<^verbatim>\<open>smooth.c\<close> is not among the sources).
  Section 4.3: zero workers is a no-op, no decomposition; for a positive number of workers
  the particles are marked with interleaved worker numbers in physical index order.
\<close>

definition smDomainDecomposition_spec :: "nat \<Rightarrow> int \<Rightarrow> machine \<Rightarrow> machine" where
  "smDomainDecomposition_spec k nproc m =
     (if nproc = 0 then m
      else (case kd_heap m k of
              None \<Rightarrow> m
            | Some kd \<Rightarrow>
                m\<lparr>kd_heap := (kd_heap m)(k := Some (kd\<lparr>kd_p :=
                     map (\<lambda>(i, q). q\<lparr>iMark := 1 + int i mod nproc\<rparr>)
                       (enumerate 0 (kd_p kd))\<rparr>))\<rparr>))"

section \<open>The density pass, from the specification\<close>

text \<open>
  \<^verbatim>\<open>smInitThreadLocalCopy\<close>, \<^verbatim>\<open>smGetNext\<close>, \<^verbatim>\<open>smBallGather\<close>, \<^verbatim>\<open>smDensity\<close> and
  \<^verbatim>\<open>smFinishThreadLocalCopy\<close> are functions of \<^verbatim>\<open>smooth.c\<close>, which is not among the sources.
  This section gives them as the specification describes them (sections 4.1, 4.4 and 5);
  \<open>populate\<close> above takes them as parameters. The session is non-periodic, as \<^verbatim>\<open>nn_start\<close>
  creates it.
\<close>

text \<open>Modelled from the spec: the ball query behind \<^verbatim>\<open>smBallGather\<close> (\<^verbatim>\<open>smooth.c\<close>). It accepts
  the particles whose squared distance to the centre is at most the squared radius, and
  yields their physical indices and squared distances.\<close>

definition dist2 :: "real \<times> real \<times> real \<Rightarrow> real \<times> real \<times> real \<Rightarrow> real" where
  "dist2 a b =
     (case (a, b) of
        ((x, y, z), (u, v, w)) \<Rightarrow> (x - u) * (x - u) + (y - v) * (y - v) + (z - w) * (z - w))"

definition position :: "machine \<Rightarrow> kdContext \<Rightarrow> PARTICLE \<Rightarrow> real \<times> real \<times> real" where
  "position m kd q = (coord m kd q 0, coord m kd q 1, coord m kd q 2)"

definition ball :: "machine \<Rightarrow> kdContext \<Rightarrow> real \<times> real \<times> real \<Rightarrow> real \<Rightarrow> (int \<times> real) list" where
  "ball m kd c r2 =
     filter (\<lambda>(j, d). d \<le> r2)
       (map (\<lambda>(j, q). (int j, dist2 (position m kd q) c)) (enumerate 0 (kd_p kd)))"

text \<open>Modelled from the spec: the reduction and the write of \<^verbatim>\<open>smDensity\<close> (\<^verbatim>\<open>smooth.c\<close>). The
  density is the kernel-weighted sum of the neighbours' masses, written to the density
  field at the particle's original index. The spec names no kernel: it is the parameter
  \<open>W\<close>, a function of the particle's smoothing length and of the neighbour's squared
  distance.\<close>

definition mass_of :: "machine \<Rightarrow> kdContext \<Rightarrow> int \<Rightarrow> real" where
  "mass_of m kd j =
     (case particle_at kd j of
        None \<Rightarrow> 0
      | Some q \<Rightarrow> (case GET m (pNumpyMass kd) (iOrder q) of None \<Rightarrow> 0 | Some x \<Rightarrow> x))"

definition weighted_mass ::
  "(real \<Rightarrow> real \<Rightarrow> real) \<Rightarrow> machine \<Rightarrow> kdContext \<Rightarrow> real \<Rightarrow> (int \<times> real) list \<Rightarrow> real" where
  "weighted_mass W m kd h nb = sum_list (map (\<lambda>(j, d). W h d * mass_of m kd j) nb)"

definition write_density :: "machine \<Rightarrow> kdContext \<Rightarrow> PARTICLE \<Rightarrow> real \<Rightarrow> machine" where
  "write_density m kd q rho =
     (case pNumpyDen kd of
        None \<Rightarrow> m
      | Some a \<Rightarrow>
          m\<lparr>arrays := (arrays m)
               (a := (arrays m a)\<lparr>elems := (elems (arrays m a))[nat (iOrder q) := rho]\<rparr>)\<rparr>)"

text \<open>Modelled from the spec: \<^verbatim>\<open>smInitThreadLocalCopy\<close> and \<^verbatim>\<open>smFinishThreadLocalCopy\<close>
  (\<^verbatim>\<open>smooth.c\<close>). The worker's copy shares the tree and the field bindings and has scratch
  of its own; finishing it releases the scratch and changes nothing that is shared.\<close>

definition smInitThreadLocalCopy_spec :: "smContext \<Rightarrow> smContext" where
  "smInitThreadLocalCopy_spec smx = smx\<lparr>pList := [], fList := []\<rparr>"

definition smFinishThreadLocalCopy_spec :: "smContext \<Rightarrow> machine \<Rightarrow> machine" where
  "smFinishThreadLocalCopy_spec smx m = m"

text \<open>Modelled from the spec: the active flag of a particle (sections 3 and 5). \<open>kdinit\<close>
  sets \<^verbatim>\<open>iMark\<close> to 1 in every particle; a particle whose mark is 0 is inactive.\<close>

definition active :: "PARTICLE \<Rightarrow> bool" where
  "active q = (iMark q \<noteq> 0)"

text \<open>Modelled from the spec: the physical indices that are claimed from cursor \<open>c\<close> on, the
  active particles in index order, and the first of them. When none is left the claim
  yields the particle count (or the cursor, if that is beyond it).\<close>

definition claimed :: "kdContext \<Rightarrow> int \<Rightarrow> nat list" where
  "claimed kd c = filter (\<lambda>j. active (kd_p kd ! j)) [nat c..<length (kd_p kd)]"

definition next_active :: "kdContext \<Rightarrow> int \<Rightarrow> int" where
  "next_active kd c =
     (case claimed kd c of
        [] \<Rightarrow> max c (int (length (kd_p kd)))
      | j # _ \<Rightarrow> int j)"

text \<open>Modelled from the spec: \<^verbatim>\<open>smGetNext\<close> (\<^verbatim>\<open>smooth.c\<close>), the fetch of the next active particle
  index of the session's tree and the advance of the shared claim cursor past it.\<close>

definition smGetNext_spec :: "smContext \<Rightarrow> machine \<Rightarrow> int \<times> smContext \<times> machine" where
  "smGetNext_spec smx m =
     (case kd_heap m (smx_kd smx) of
        None \<Rightarrow> (pin_global m, smx, m\<lparr>pin_global := pin_global m + 1\<rparr>)
      | Some kd \<Rightarrow>
          (next_active kd (pin_global m), smx,
           m\<lparr>pin_global := next_active kd (pin_global m) + 1\<rparr>))"

text \<open>Modelled from the spec: \<^verbatim>\<open>smBallGather\<close> (\<^verbatim>\<open>smooth.c\<close>). It fills the scratch lists of
  the worker's copy with the ball query on the session's tree and returns the count.\<close>

definition smBallGather_spec ::
  "smContext \<Rightarrow> real \<Rightarrow> real \<times> real \<times> real \<Rightarrow> machine \<Rightarrow> int \<times> smContext" where
  "smBallGather_spec smx r2 ri m =
     (case kd_heap m (smx_kd smx) of
        None \<Rightarrow> (0, smx)
      | Some kd \<Rightarrow>
          (int (length (ball m kd ri r2)),
           smx\<lparr>pList := map fst (ball m kd ri r2), fList := map snd (ball m kd ri r2)\<rparr>))"

text \<open>Modelled from the spec: \<^verbatim>\<open>smDensity\<close> (\<^verbatim>\<open>smooth.c\<close>), on the first \<open>nCnt\<close> entries of the
  lists it is given.\<close>

definition smDensity_spec ::
  "(real \<Rightarrow> real \<Rightarrow> real) \<Rightarrow> smContext \<Rightarrow> int \<Rightarrow> int \<Rightarrow> int list \<Rightarrow> real list \<Rightarrow>
   machine \<Rightarrow> machine" where
  "smDensity_spec W smx i nCnt pl fl m =
     (case kd_heap m (smx_kd smx) of
        None \<Rightarrow> m
      | Some kd \<Rightarrow>
          (case particle_at kd i of
             None \<Rightarrow> m
           | Some q \<Rightarrow>
               (case GET m (pNumpySmooth kd) (iOrder q) of
                  None \<Rightarrow> m
                | Some h \<Rightarrow>
                    write_density m kd q
                      (weighted_mass W m kd h (take (nat nCnt) (zip pl fl))))))"

text \<open>The functions of a density pass, with the kernel and with the step function of the
  smoothing-length pass (which the density pass does not call) left open.\<close>

definition rho_fns ::
  "(real \<Rightarrow> real \<Rightarrow> real) \<Rightarrow> (smContext \<Rightarrow> int \<Rightarrow> machine \<Rightarrow> int \<times> smContext \<times> machine) \<Rightarrow>
   smooth_fns" where
  "rho_fns W step =
     \<lparr>smInitThreadLocalCopy = smInitThreadLocalCopy_spec,
      smSmoothStep = step,
      smGetNext = smGetNext_spec,
      smBallGather = smBallGather_spec,
      smDensity = smDensity_spec W,
      smFinishThreadLocalCopy = smFinishThreadLocalCopy_spec\<rparr>"

text \<open>
  What the claim about the density pass says of one claimed particle \<open>i\<close>, in its words
  and on the arrays themselves. With \<open>h\<close> the value stored in the smoothing-length field
  at the particle's original index, \<open>hsm\<close> its narrowing, and the centre the narrowing of
  the particle's position: gather the particles whose squared distance to the centre is
  at most the squared radius \<open>4 hsm hsm\<close>, and write the kernel-weighted sum of the
  gathered neighbours' masses into the density field at the particle's original index.
  The narrowing is a parameter: \<open>float_round\<close> is what the floats of the source do, and
  the identity is the claim read to the letter, with the squared radius exactly \<open>4 h h\<close>.
\<close>

definition row3 :: "real list \<Rightarrow> nat \<Rightarrow> real \<times> real \<times> real" where
  "row3 xs j = (xs ! (3 * j), xs ! (3 * j + 1), xs ! (3 * j + 2))"

definition density_step ::
  "(real \<Rightarrow> real) \<Rightarrow> (real \<Rightarrow> real \<Rightarrow> real) \<Rightarrow> nat \<Rightarrow> machine \<Rightarrow> nat \<Rightarrow> machine" where
  "density_step narrow W k m i =
     (case kd_heap m k of
        None \<Rightarrow> m
      | Some kd \<Rightarrow>
          (case (pNumpyPos kd, pNumpySmooth kd, pNumpyMass kd, pNumpyDen kd) of
             (Some pa, Some sa, Some ma, Some da) \<Rightarrow>
               let orig = (\<lambda>j. nat (iOrder (kd_p kd ! j)));
                   pos = elems (arrays m pa);
                   h = elems (arrays m sa) ! orig i;
                   hsm = narrow h;
                   c = (narrow (pos ! (3 * orig i)), narrow (pos ! (3 * orig i + 1)),
                        narrow (pos ! (3 * orig i + 2)));
                   fBall2 = narrow (narrow (4 * hsm) * hsm);
                   nb = filter (\<lambda>j. dist2 (row3 pos (orig j)) c \<le> fBall2) [0..<length (kd_p kd)];
                   rho = sum_list (map (\<lambda>j. W h (dist2 (row3 pos (orig j)) c)
                                              * (elems (arrays m ma) ! orig j)) nb)
               in m\<lparr>arrays := (arrays m)
                      (da := (arrays m da)\<lparr>elems := (elems (arrays m da))[orig i := rho]\<rparr>)\<rparr>
           | _ \<Rightarrow> m))"

text \<open>
  A state on which a density pass over the tree behind pointer \<open>k\<close> reads and writes in
  range: the position array has \<open>n\<close> rows of three, the particle array has \<open>n\<close> entries
  with original indices below \<open>n\<close>, the smoothing-length, density and mass fields are
  bound to double arrays of \<open>n\<close> elements, the density array is neither the position nor
  the smoothing-length array, and every position, every smoothing length and the products
  \<^verbatim>\<open>4*hsm\<close> and \<^verbatim>\<open>4*hsm*hsm\<close> made of it are within the range of a float.
\<close>

definition field_of_length :: "machine \<Rightarrow> addr option \<Rightarrow> int \<Rightarrow> bool" where
  "field_of_length m x n =
     (case x of
        None \<Rightarrow> False
      | Some a \<Rightarrow> is_double_array m a \<and> int (length (elems (arrays m a))) = n)"

definition floats_ok :: "real list \<Rightarrow> real list \<Rightarrow> nat \<Rightarrow> bool" where
  "floats_ok pos sm j =
     (to_float (pos ! (3 * j)) \<noteq> None \<and> to_float (pos ! (3 * j + 1)) \<noteq> None
      \<and> to_float (pos ! (3 * j + 2)) \<noteq> None
      \<and> (case to_float (sm ! j) of None \<Rightarrow> False | Some hsm \<Rightarrow> ball_radius2 hsm \<noteq> None))"

definition pass_ready :: "machine \<Rightarrow> nat \<Rightarrow> int \<Rightarrow> bool" where
  "pass_ready m k n =
     (case kd_heap m k of
        None \<Rightarrow> False
      | Some kd \<Rightarrow>
          (case (pNumpyPos kd, pNumpySmooth kd) of
             (Some pa, Some sa) \<Rightarrow>
               dims (arrays m pa) = [n, 3] \<and> int (length (elems (arrays m pa))) = 3 * n
               \<and> int (length (kd_p kd)) = n
               \<and> list_all (\<lambda>q. 0 \<le> iOrder q \<and> iOrder q < n
                     \<and> floats_ok (elems (arrays m pa)) (elems (arrays m sa)) (nat (iOrder q)))
                   (kd_p kd)
               \<and> field_of_length m (pNumpySmooth kd) n
               \<and> field_of_length m (pNumpyDen kd) n
               \<and> field_of_length m (pNumpyMass kd) n
               \<and> pNumpyDen kd \<noteq> Some pa \<and> pNumpyDen kd \<noteq> Some sa
           | _ \<Rightarrow> False))"

section \<open>A small host state\<close>

text \<open>
  Three particles on the x axis at 0, 1 and 5, with unit masses. Array 10 holds the
  positions, 11 the masses, 12 smoothing lengths, 13 densities; array 14 is a double
  array of one element, 15 an array of 64-bit integers, 16 an empty (0, 3) position
  array. The host holds one reference to each array, the tree context behind pointer 0 a
  second one to the positions and the masses. In \<open>ex_machine\<close> the tree has no smoothing
  and no density field; in \<open>ex_bound\<close> they are bound to arrays 12 and 13. Pointer 1 is a
  query session on the tree whose cursor is at the last particle.
\<close>

definition float64 :: PyArray_Descr where
  "float64 = \<lparr>kind = CHR ''f'', elsize = 8\<rparr>"

definition int64 :: PyArray_Descr where
  "int64 = \<lparr>kind = CHR ''i'', elsize = 8\<rparr>"

definition ex_arrays :: "addr \<Rightarrow> ndarray" where
  "ex_arrays a =
     (if a = 10 then \<lparr>descr = Some float64, dims = [3, 3], elems = [0, 0, 0, 1, 0, 0, 5, 0, 0]\<rparr>
      else if a = 11 then \<lparr>descr = Some float64, dims = [3], elems = [1, 1, 1]\<rparr>
      else if a = 12 then \<lparr>descr = Some float64, dims = [3], elems = [1, 1, 1]\<rparr>
      else if a = 13 then \<lparr>descr = Some float64, dims = [3], elems = [0, 0, 0]\<rparr>
      else if a = 14 then \<lparr>descr = Some float64, dims = [1], elems = [0]\<rparr>
      else if a = 15 then \<lparr>descr = Some int64, dims = [3], elems = [0, 0, 0]\<rparr>
      else if a = 16 then \<lparr>descr = Some float64, dims = [0, 3], elems = []\<rparr>
      else \<lparr>descr = None, dims = [], elems = []\<rparr>)"

definition ex_refcnt :: "addr \<Rightarrow> int" where
  "ex_refcnt a = (if a = 10 \<or> a = 11 then 2 else 1)"

definition ex_kd :: kdContext where
  "ex_kd =
     \<lparr>nBucket = 1, nParticles = 3, nActive = 3,
      kd_p = [\<lparr>iOrder = 0, iMark = 1\<rparr>, \<lparr>iOrder = 1, iMark = 1\<rparr>, \<lparr>iOrder = 2, iMark = 1\<rparr>],
      kdNodes = None,
      pNumpyPos = Some 10, pNumpyMass = Some 11, pNumpySmooth = None, pNumpyDen = None,
      pNumpyQty = None, pNumpyQtySmoothed = None\<rparr>"

definition ex_kd_heap :: "nat \<Rightarrow> kdContext option" where
  "ex_kd_heap k = (if k = 0 then Some ex_kd else None)"

definition ex_smx :: smContext where
  "ex_smx = \<lparr>smx_kd = 0, nSmooth = 2, smx_pi = 2, pList = [], fList = [], warnings = True\<rparr>"

definition ex_smx_heap :: "nat \<Rightarrow> smContext option" where
  "ex_smx_heap s = (if s = 1 then Some ex_smx else None)"

definition ex_kd_bound :: kdContext where
  "ex_kd_bound = ex_kd\<lparr>pNumpySmooth := Some 12, pNumpyDen := Some 13\<rparr>"

definition ex_bound :: machine where
  "ex_bound =
     \<lparr>ob_refcnt = ex_refcnt, arrays = ex_arrays, kd_heap = (\<lambda>k. if k = 0 then Some ex_kd_bound else None),
      smx_heap = ex_smx_heap, next_ptr = 2, pin_global = 0\<rparr>"

definition ex_machine :: machine where
  "ex_machine =
     \<lparr>ob_refcnt = ex_refcnt, arrays = ex_arrays, kd_heap = ex_kd_heap,
      smx_heap = ex_smx_heap, next_ptr = 2, pin_global = 0\<rparr>"

text \<open>The host state with one more array, 17: a position array of \<open>2 ^ 32 + 3\<close> rows, all
  at the origin.\<close>

definition wide_arrays :: "addr \<Rightarrow> ndarray" where
  "wide_arrays a =
     (if a = 17
      then \<lparr>descr = Some float64, dims = [4294967299, 3], elems = replicate 12884901897 0\<rparr>
      else ex_arrays a)"

definition ex_wide :: machine where
  "ex_wide = ex_machine\<lparr>arrays := wide_arrays\<rparr>"

text \<open>The indices stored across the particle array of the tree behind a pointer, after a
  call, and the contents of an array after a call.\<close>

definition stored_indices :: "(pyresult \<times> machine) outcome \<Rightarrow> nat \<Rightarrow> int multiset option" where
  "stored_indices r k =
     (case r of
        Returns (_, m) \<Rightarrow>
          (case kd_heap m k of
             None \<Rightarrow> None
           | Some kd \<Rightarrow> Some (mset (map iOrder (kd_p kd))))
      | _ \<Rightarrow> None)"

definition elems_after :: "(pyresult \<times> machine) outcome \<Rightarrow> addr \<Rightarrow> real list option" where
  "elems_after r a = (case r of Returns (_, m) \<Rightarrow> Some (elems (arrays m a)) | _ \<Rightarrow> None)"

text \<open>
  A tree whose build has permuted the particles: the physical order is original index 2,
  0, 1, and the particle of original index 0 is inactive. Array 20 holds the positions
  (x = 0, 1 and 5 by original index), 21 the masses 2, 3 and 7, 22 the smoothing lengths,
  23 the densities. The kernel of the examples is \<open>h / (1 + d)\<close>.
\<close>

definition pass_arrays :: "addr \<Rightarrow> ndarray" where
  "pass_arrays a =
     (if a = 20 then \<lparr>descr = Some float64, dims = [3, 3], elems = [0, 0, 0, 1, 0, 0, 5, 0, 0]\<rparr>
      else if a = 21 then \<lparr>descr = Some float64, dims = [3], elems = [2, 3, 7]\<rparr>
      else if a = 22 then \<lparr>descr = Some float64, dims = [3], elems = [1, 1, 1]\<rparr>
      else if a = 23 then \<lparr>descr = Some float64, dims = [3], elems = [0, 0, 0]\<rparr>
      else \<lparr>descr = None, dims = [], elems = []\<rparr>)"

definition pass_kd :: kdContext where
  "pass_kd =
     \<lparr>nBucket = 1, nParticles = 3, nActive = 3,
      kd_p = [\<lparr>iOrder = 2, iMark = 1\<rparr>, \<lparr>iOrder = 0, iMark = 0\<rparr>, \<lparr>iOrder = 1, iMark = 1\<rparr>],
      kdNodes = None,
      pNumpyPos = Some 20, pNumpyMass = Some 21, pNumpySmooth = Some 22, pNumpyDen = Some 23,
      pNumpyQty = None, pNumpyQtySmoothed = None\<rparr>"

definition pass_kd_heap :: "nat \<Rightarrow> kdContext option" where
  "pass_kd_heap k = (if k = 0 then Some pass_kd else None)"

definition ex_pass :: machine where
  "ex_pass =
     \<lparr>ob_refcnt = ex_refcnt, arrays = pass_arrays, kd_heap = pass_kd_heap,
      smx_heap = ex_smx_heap, next_ptr = 2, pin_global = 0\<rparr>"

definition ex_kernel :: "real \<Rightarrow> real \<Rightarrow> real" where
  "ex_kernel h d = h / (1 + d)"

text \<open>
  Two particles in their original order, at x = 0 and x = 2 + 2^-29, with unit masses
  (array 31) and the smoothing lengths 1 + 2^-30 and 1 (array 32); array 30 holds the
  positions, 33 the densities. The second particle is at squared distance exactly
  \<open>4 h h\<close> from the first, \<open>h\<close> being the first particle's stored smoothing length. The
  kernel is constant, and the step function is one that has nothing more to do.
\<close>

definition narrow_arrays :: "addr \<Rightarrow> ndarray" where
  "narrow_arrays a =
     (if a = 30
      then \<lparr>descr = Some float64, dims = [2, 3],
            elems = [0, 0, 0, 1073741825 / 536870912, 0, 0]\<rparr>
      else if a = 31 then \<lparr>descr = Some float64, dims = [2], elems = [1, 1]\<rparr>
      else if a = 32
      then \<lparr>descr = Some float64, dims = [2], elems = [1073741825 / 1073741824, 1]\<rparr>
      else if a = 33 then \<lparr>descr = Some float64, dims = [2], elems = [0, 0]\<rparr>
      else \<lparr>descr = None, dims = [], elems = []\<rparr>)"

definition narrow_kd :: kdContext where
  "narrow_kd =
     \<lparr>nBucket = 1, nParticles = 2, nActive = 2,
      kd_p = [\<lparr>iOrder = 0, iMark = 1\<rparr>, \<lparr>iOrder = 1, iMark = 1\<rparr>],
      kdNodes = None,
      pNumpyPos = Some 30, pNumpyMass = Some 31, pNumpySmooth = Some 32, pNumpyDen = Some 33,
      pNumpyQty = None, pNumpyQtySmoothed = None\<rparr>"

definition narrow_kd_heap :: "nat \<Rightarrow> kdContext option" where
  "narrow_kd_heap k = (if k = 0 then Some narrow_kd else None)"

definition ex_narrow :: machine where
  "ex_narrow =
     \<lparr>ob_refcnt = ex_refcnt, arrays = narrow_arrays, kd_heap = narrow_kd_heap,
      smx_heap = ex_smx_heap, next_ptr = 2, pin_global = 0\<rparr>"

definition unit_kernel :: "real \<Rightarrow> real \<Rightarrow> real" where
  "unit_kernel h d = 1"

definition idle_step :: "smContext \<Rightarrow> int \<Rightarrow> machine \<Rightarrow> int \<times> smContext \<times> machine" where
  "idle_step smx procid m = (- 1, smx, m)"

section \<open>Facts about the primitives\<close>

lemmas ex_defs = ex_machine_def ex_bound_def ex_kd_heap_def ex_kd_bound_def ex_kd_def
  ex_arrays_def ex_refcnt_def ex_smx_heap_def ex_smx_def float64_def int64_def

lemma checkArray_Some_iff:
  "checkArray m (Some a) =
     (if is_double_array m a then None
      else Some (TypeError ''Incorrect numpy data type to kdtree - must match C double''))"
  by (auto simp: checkArray_def is_double_array_def split: option.splits)

lemma checkArray_None_iff: "checkArray m x = None \<longleftrightarrow> bound_double m x"
  by (cases x) (simp_all add: checkArray_Some_iff bound_double_def, simp add: checkArray_def)

lemma arid_field_Some_c_int: "arid_field arid = Some f \<Longrightarrow> is_c_int arid"
  by (auto simp: arid_field_def is_c_int_def split: if_splits)

lemma arid_field_None_iff: "arid_field arid = None \<longleftrightarrow> arid < 0 \<or> 4 < arid"
  by (auto simp: arid_field_def)

lemma field_get_set: "field_get g (field_set f v kd) = (if g = f then v else field_get g kd)"
  by (cases f; cases g) simp_all

lemma ob_refcnt_XDECREF:
  "ob_refcnt (Py_XDECREF x m) a = ob_refcnt m a - (if x = Some a then 1 else 0)"
  by (cases x) (simp_all add: Py_XDECREF_def)

lemma kd_heap_XDECREF [simp]: "kd_heap (Py_XDECREF x m) = kd_heap m"
  by (cases x) (simp_all add: Py_XDECREF_def)

lemma arrays_XDECREF [simp]: "arrays (Py_XDECREF x m) = arrays m"
  by (cases x) (simp_all add: Py_XDECREF_def)

section \<open>Binding and reading fields\<close>

text \<open>
  Claim C3, as the code has it. For every slot, \<open>set_arrayref\<close> accepts a buffer and
  replaces the binding of that slot exactly when the buffer's descriptor is a C double
  (kind \<open>f\<close>, element size 8). Then the slot holds the buffer, the other slots are as
  before, the prior buffer has lost one reference and the new one has gained one, and no
  array's contents changed. Otherwise the call raises \<^verbatim>\<open>TypeError\<close> and the state is
  unchanged. The element count of the buffer plays no part.
\<close>

theorem set_arrayref_binds_iff_double:
  assumes "kd_heap m k = Some kd" and "arid_field arid = Some f"
  shows "if is_double_array m a
         then (\<exists>m'. set_arrayref m [PyCapsule k, PyLong arid, PyArray a] = Returns (Inr PyNone, m')
                \<and> map_option (field_get f) (kd_heap m' k) = Some (Some a)
                \<and> (\<forall>g. g \<noteq> f \<longrightarrow> map_option (field_get g) (kd_heap m' k) = Some (field_get g kd))
                \<and> ob_refcnt m' = ob_refcnt (Py_INCREF a (Py_XDECREF (field_get f kd) m))
                \<and> arrays m' = arrays m)
         else set_arrayref m [PyCapsule k, PyLong arid, PyArray a] =
                Returns (Inl (TypeError ''Incorrect numpy data type to kdtree - must match C double''), m)"
  using assms arid_field_Some_c_int[OF assms(2)]
  by (simp add: set_arrayref_def PyCapsule_GetPointer_def checkArray_Some_iff Let_def
      Py_INCREF_def Py_XDECREF_def field_get_set split: option.splits)

text \<open>On the small host state: the double array 12 is bound to the smoothing slot, the
  integer array 15 is refused.\<close>

theorem set_arrayref_binds_iff_double_witness:
  "kd_heap ex_machine 0 = Some ex_kd \<and> arid_field 0 = Some Smoothing
   \<and> is_double_array ex_machine 12 \<and> \<not> is_double_array ex_machine 15
   \<and> returned (set_arrayref ex_machine [PyCapsule 0, PyLong 0, PyArray 12]) = Some PyNone
   \<and> raised (set_arrayref ex_machine [PyCapsule 0, PyLong 0, PyArray 15]) =
        Some (TypeError ''Incorrect numpy data type to kdtree - must match C double'')"
proof -
  have h: "kd_heap ex_machine 0 = Some ex_kd" by (simp add: ex_defs)
  have f: "arid_field 0 = Some Smoothing" by (simp add: arid_field_def)
  have d: "is_double_array ex_machine 12" by (simp add: is_double_array_def ex_defs)
  have n: "\<not> is_double_array ex_machine 15" by (simp add: is_double_array_def ex_defs)
  from set_arrayref_binds_iff_double[OF h f, of 12] d
  have a: "returned (set_arrayref ex_machine [PyCapsule 0, PyLong 0, PyArray 12]) = Some PyNone"
    by (auto simp: returned_def)
  from set_arrayref_binds_iff_double[OF h f, of 15] n
  have b: "raised (set_arrayref ex_machine [PyCapsule 0, PyLong 0, PyArray 15]) =
        Some (TypeError ''Incorrect numpy data type to kdtree - must match C double'')"
    by (simp add: raised_def)
  from h f d n a b show ?thesis by blast
qed

text \<open>The claim as stated asks for the element count to equal the particle count. The tree
  of the small host state has three particles; the double array 14 has one element, and
  \<open>set_arrayref\<close> binds it to the smoothing slot.\<close>

theorem set_arrayref_wrong_length_counterexample:
  "set_arrayref ex_machine [PyCapsule 0, PyLong 0, PyArray 14] =
     Returns (Inr PyNone,
       ex_machine\<lparr>ob_refcnt := (ob_refcnt ex_machine)(14 := 2),
                  kd_heap := (kd_heap ex_machine)(0 := Some (ex_kd\<lparr>pNumpySmooth := Some 14\<rparr>))\<rparr>)
   \<and> dims (arrays ex_machine 14) = [1] \<and> length (elems (arrays ex_machine 14)) = 1
   \<and> kd_heap ex_machine 0 = Some ex_kd \<and> nParticles ex_kd = 3"
  by (simp add: set_arrayref_def PyCapsule_GetPointer_def checkArray_def arid_field_def
      is_c_int_def Py_INCREF_def Py_XDECREF_def Let_def ex_defs)

text \<open>
  Claim C10. With a slot id outside 0..4 (any other C \<^verbatim>\<open>int\<close>), \<open>set_arrayref\<close> and
  \<open>get_arrayref\<close> return \<^verbatim>\<open>NULL\<close> with an exception set and leave the state, and so every
  field binding, as it was.
\<close>

theorem unknown_slot_fails:
  assumes "is_c_int arid" and "arid < 0 \<or> 4 < arid"
  shows "(\<exists>e. set_arrayref m [kdobj, PyLong arid, PyArray a] = Returns (Inl e, m))
       \<and> (\<exists>e. get_arrayref m [kdobj, PyLong arid] = Returns (Inl e, m))"
  using assms arid_field_None_iff[of arid]
  by (simp add: set_arrayref_def get_arrayref_def checkArray_Some_iff split: option.splits)

theorem unknown_slot_fails_witness:
  "is_c_int 5 \<and> raised (set_arrayref ex_machine [PyCapsule 0, PyLong 5, PyArray 12]) \<noteq> None
   \<and> state_after (set_arrayref ex_machine [PyCapsule 0, PyLong 5, PyArray 12]) = Some ex_machine
   \<and> raised (get_arrayref ex_machine [PyCapsule 0, PyLong 5]) \<noteq> None
   \<and> state_after (get_arrayref ex_machine [PyCapsule 0, PyLong 5]) = Some ex_machine"
proof -
  have c: "is_c_int 5" by (simp add: is_c_int_def)
  from unknown_slot_fails[OF c, of ex_machine "PyCapsule 0" 12]
  show ?thesis using c by (auto simp: raised_def state_after_def)
qed

text \<open>The C function \<open>get_arrayref\<close> reads back what \<open>set_arrayref\<close> bound, reports an
  unbound slot as \<^verbatim>\<open>None\<close>, and changes nothing.\<close>

lemma get_arrayref_after_set:
  assumes "kd_heap m k = Some kd" and "arid_field arid = Some f"
    and "set_arrayref m [PyCapsule k, PyLong arid, PyArray a] = Returns (Inr PyNone, m')"
  shows "get_arrayref m' [PyCapsule k, PyLong arid] = Returns (Inr (PyArray a), m')"
  using assms arid_field_Some_c_int[OF assms(2)]
  by (auto simp: set_arrayref_def get_arrayref_def PyCapsule_GetPointer_def Let_def
      Py_INCREF_def Py_XDECREF_def field_get_set split: option.splits if_splits)

lemma get_arrayref_unbound:
  assumes "kd_heap m k = Some kd" and "arid_field arid = Some f" and "field_get f kd = None"
  shows "get_arrayref m [PyCapsule k, PyLong arid] = Returns (Inr PyNone, m)"
  using assms arid_field_Some_c_int[OF assms(2)]
  by (simp add: get_arrayref_def PyCapsule_GetPointer_def)

text \<open>
  Claim C4 fails on the module as the host sees it. The table binds the name
  \<^verbatim>\<open>get_arrayref\<close> to the C function \<^verbatim>\<open>set_arrayref\<close>. A call with a handle and a slot
  does not match the format \<^verbatim>\<open>OiO\<close>, the unchecked parse leaves the locals uninitialised,
  and the call has no defined result; a call with a third argument rebinds the slot.
\<close>

theorem getField_runs_set_arrayref:
  "map_of (kdmain_methods X) ''get_arrayref'' = Some set_arrayref
   \<and> kdmain_call X ''get_arrayref'' m [PyCapsule k, PyLong arid] = Some Undefined
   \<and> kdmain_call X ''get_arrayref'' m [PyCapsule k, PyLong arid, PyArray a]
       = Some (set_arrayref m [PyCapsule k, PyLong arid, PyArray a])"
  by (simp add: kdmain_call_def kdmain_methods_def set_arrayref_def)

section \<open>Building the index\<close>

text \<open>
  Claim C2, as the code has it. \<open>kdinit\<close> raises exactly when its arguments do not parse
  as two objects and a C \<^verbatim>\<open>int\<close>, whatever \<^verbatim>\<open>kdInit\<close> and \<^verbatim>\<open>kdBuildTree\<close> do: no bucket
  capacity and no number of rows makes it raise.
\<close>

theorem kdinit_raises_iff_parse_fails:
  "(raised (kdinit kdInit kdBuildTree m args) \<noteq> None) = (\<not> parses_OOi args)"
  by (auto simp: kdinit_def raised_def parses_OOi_def Let_def
      split: list.splits pyobj.splits option.splits outcome.splits)

lemma kdBuild_Nil: "0 \<le> nB \<Longrightarrow> kdBuild nB r [] = Some (Leaf [])"
  by (subst kdBuild.simps) simp

text \<open>On the empty position array 16, \<open>kdinit\<close> returns an index handle, with bucket
  capacity 0 and with bucket capacity 8.\<close>

theorem kdinit_no_validation_counterexample:
  "returned (kdinit kdInit_spec kdBuildTree_spec ex_machine [PyArray 16, PyArray 11, PyLong 0])
     = Some (PyCapsule 2)
   \<and> returned (kdinit kdInit_spec kdBuildTree_spec ex_machine [PyArray 16, PyArray 11, PyLong 8])
     = Some (PyCapsule 2)
   \<and> dims (arrays ex_machine 16) = [0, 3]"
  by (simp add: kdinit_def returned_def kdInit_spec_def kdBuildTree_spec_def is_c_int_def
      c_int_def new_particles_def kdBuild_Nil Py_INCREF_def Let_def ex_defs)

section \<open>The permutation invariant of the build\<close>

lemma parts_mset: "mset (lower_part r ps) + mset (upper_part r ps) = mset ps"
proof -
  have "mset (lower_part r ps) + mset (upper_part r ps) = mset (by_axis r ps)"
    unfolding lower_part_def upper_part_def
    by (metis append_take_drop_id mset_append)
  then show ?thesis by (simp add: by_axis_def)
qed

lemma length_by_axis [simp]: "length (by_axis r ps) = length ps"
  by (simp add: by_axis_def)

lemma kdBuild_total:
  assumes "1 \<le> nB"
  shows "\<exists>t. kdBuild nB r ps = Some t \<and> mset (leaves t) = mset ps"
proof (induction "length ps" arbitrary: ps rule: less_induct)
  case less
  show ?case
  proof (cases "int (length ps) \<le> nB")
    case True
    then show ?thesis by (subst kdBuild.simps) simp
  next
    case False
    with assms have len: "2 \<le> length ps" by linarith
    then have l: "length (lower_part r ps) < length ps"
      and u: "length (upper_part r ps) < length ps"
      by (simp_all add: lower_part_def upper_part_def)
    from less[OF l] obtain lo where lo: "kdBuild nB r (lower_part r ps) = Some lo"
      "mset (leaves lo) = mset (lower_part r ps)" by blast
    from less[OF u] obtain hi where hi: "kdBuild nB r (upper_part r ps) = Some hi"
      "mset (leaves hi) = mset (upper_part r ps)" by blast
    show ?thesis
      by (subst kdBuild.simps) (simp add: False lo hi parts_mset)
  qed
qed

lemma c_int_id: "0 \<le> n \<Longrightarrow> n < 2147483648 \<Longrightarrow> c_int n = n"
  by (simp add: c_int_def)

lemma iOrder_new_particles: "map iOrder (new_particles n) = map int [0..<nat n]"
  by (simp add: new_particles_def comp_def)

lemma readable_new_particles:
  assumes "pNumpyPos kd = Some a" and "nat (3 * n) \<le> length (elems (arrays m a))"
  shows "list_all (readable m kd) (new_particles n)"
  using assms
  by (auto simp: list_all_iff new_particles_def readable_def GET2_def GET_def)

text \<open>
  What \<open>kdinit\<close> builds is decided by the row count as the \<^verbatim>\<open>int nbodies\<close> holds it: when
  that is not negative and the position array has as many rows, the tree has
  \<open>c_int d\<close> particles and stores the indices below \<open>c_int d\<close>, each once.
\<close>

lemma kdinit_builds_c_int_rows:
  assumes "1 \<le> nB" and "is_c_int nB" and "dims (arrays m a) = d # ds" and "0 \<le> c_int d"
    and "nat (3 * c_int d) \<le> length (elems (arrays m a))"
  shows "\<exists>m' kd. kdinit kdInit_spec kdBuildTree_spec m [PyArray a, PyArray b, PyLong nB]
                    = Returns (Inr (PyCapsule (next_ptr m)), m')
           \<and> kd_heap m' (next_ptr m) = Some kd \<and> nParticles kd = c_int d
           \<and> mset (map iOrder (kd_p kd)) = mset (map int [0..<nat (c_int d)])"
proof -
  define n where "n = c_int d"
  define m1 where "m1 = Py_INCREF b (Py_INCREF a m)"
  define kd2 where "kd2 =
     \<lparr>nBucket = nB, nParticles = n, nActive = n, kd_p = new_particles n, kdNodes = None,
      pNumpyPos = Some a, pNumpyMass = Some b, pNumpySmooth = None, pNumpyDen = None,
      pNumpyQty = None, pNumpyQtySmoothed = None\<rparr>"
  have arr: "arrays m1 = arrays m" and np: "next_ptr m1 = next_ptr m"
    by (simp_all add: m1_def Py_INCREF_def)
  from kdBuild_total[OF assms(1)] obtain t
    where t: "kdBuild nB (coord m1 kd2) (new_particles n) = Some t"
      "mset (leaves t) = mset (new_particles n)" by blast
  have rd: "list_all (readable m1 kd2) (kd_p kd2)"
    using readable_new_particles[of kd2 a n m1] assms(5) by (simp add: kd2_def arr n_def)
  have bt: "kdBuildTree_spec m1 kd2 = Returns (kd2\<lparr>kd_p := leaves t, kdNodes := Some t\<rparr>)"
    using rd t(1) by (simp add: kdBuildTree_spec_def) (simp add: kd2_def)
  have nn: "\<not> n < 0" using assms(4) by (simp add: n_def)
  have run: "kdinit kdInit_spec kdBuildTree_spec m [PyArray a, PyArray b, PyLong nB]
        = Returns (Inr (PyCapsule (next_ptr m)),
            m1\<lparr>kd_heap := (kd_heap m1)(next_ptr m := Some (kd2\<lparr>kd_p := leaves t, kdNodes := Some t\<rparr>)),
               next_ptr := Suc (next_ptr m)\<rparr>)"
    using assms(2,3) nn bt
    by (simp add: kdinit_def kdInit_spec_def Let_def n_def[symmetric] m1_def[symmetric]
          kd2_def[symmetric] np)
  have "mset (map iOrder (leaves t)) = mset (map int [0..<nat n])"
    using t(2) iOrder_new_particles[of n] by (metis mset_map)
  with run show ?thesis by (simp add: kd2_def n_def)
qed

text \<open>
  Claim C1, within the range of a C \<^verbatim>\<open>int\<close>. On a position array of \<open>n\<close> rows of three,
  \<open>1 \<le> n < 2 ^ 31\<close>, and with a bucket capacity of at least 1, \<open>kdinit\<close> with the build of the
  specification returns a handle to a tree of \<open>n\<close> particles, and the original indices
  stored across its particle array are \<open>0, ..., n - 1\<close>, each exactly once: the build
  permutes the particles and neither drops nor duplicates one.
\<close>

theorem kdinit_permutation:
  assumes "1 \<le> nB" and "is_c_int nB" and "1 \<le> n" and "n < 2147483648"
    and "dims (arrays m a) = [n, 3]" and "length (elems (arrays m a)) = nat (3 * n)"
  shows "\<exists>m' kd. kdinit kdInit_spec kdBuildTree_spec m [PyArray a, PyArray b, PyLong nB]
                    = Returns (Inr (PyCapsule (next_ptr m)), m')
           \<and> kd_heap m' (next_ptr m) = Some kd \<and> nParticles kd = n
           \<and> mset (map iOrder (kd_p kd)) = mset (map int [0..<nat n])"
proof -
  have c: "c_int n = n" using assms(3,4) by (simp add: c_int_id)
  show ?thesis
    using kdinit_builds_c_int_rows[of nB m a n "[3]" b] assms c by simp
qed

text \<open>The three particles of the small host state, bucket capacity 1.\<close>

theorem kdinit_permutation_witness:
  "\<exists>m' kd. kdinit kdInit_spec kdBuildTree_spec ex_machine [PyArray 10, PyArray 11, PyLong 1]
              = Returns (Inr (PyCapsule 2), m')
     \<and> kd_heap m' 2 = Some kd \<and> nParticles kd = 3
     \<and> mset (map iOrder (kd_p kd)) = mset (map int [0..<3])"
proof -
  have a: "is_c_int 1" by (simp add: is_c_int_def)
  have b: "dims (arrays ex_machine 10) = [3, 3]" by (simp add: ex_defs)
  have c: "length (elems (arrays ex_machine 10)) = nat (3 * 3)" by (simp add: ex_defs)
  have d: "next_ptr ex_machine = 2" by (simp add: ex_defs)
  from kdinit_permutation[of 1 3 ex_machine 10 11, OF _ a _ _ b c] d
  show ?thesis by simp
qed

text \<open>
  Beyond the range of a C \<^verbatim>\<open>int\<close> the invariant of claim C1 fails. The position array 17
  has \<open>2 ^ 32 + 3\<close> rows of three. The row count is stored in an \<^verbatim>\<open>int\<close>, where it is 3:
  the tree that \<open>kdinit\<close> builds has 3 particles, and the indices stored across its
  particle array are 0, 1 and 2, not \<open>0, ..., 2 ^ 32 + 2\<close>.
\<close>

theorem kdinit_wide_array_counterexample:
  "dims (arrays ex_wide 17) = [4294967299, 3]
   \<and> length (elems (arrays ex_wide 17)) = 3 * 4294967299
   \<and> stored_indices
       (kdinit kdInit_spec kdBuildTree_spec ex_wide [PyArray 17, PyArray 11, PyLong 1]) 2
     = Some (mset [0, 1, 2])"
proof -
  have a: "is_c_int 1" by (simp add: is_c_int_def)
  have b: "dims (arrays ex_wide 17) = [4294967299, 3]"
    by (simp add: ex_wide_def wide_arrays_def)
  have l: "length (elems (arrays ex_wide 17)) = 3 * 4294967299"
    by (simp add: ex_wide_def wide_arrays_def)
  have c: "c_int 4294967299 = 3" by (simp add: c_int_def)
  have d: "next_ptr ex_wide = 2" by (simp add: ex_wide_def ex_machine_def)
  have u: "map int [0..<nat (c_int 4294967299)] = [0, 1, 2]"
    unfolding c by (simp add: upt_rec)
  have l': "nat (3 * c_int 4294967299) \<le> length (elems (arrays ex_wide 17))"
    unfolding c l by simp
  have "\<exists>m' kd. kdinit kdInit_spec kdBuildTree_spec ex_wide [PyArray 17, PyArray 11, PyLong 1]
                    = Returns (Inr (PyCapsule 2), m')
           \<and> kd_heap m' 2 = Some kd \<and> nParticles kd = c_int 4294967299
           \<and> mset (map iOrder (kd_p kd)) = mset [0, 1, 2]"
    using kdinit_builds_c_int_rows[of 1 ex_wide 17 4294967299 "[3]" 11, OF _ a b _ l']
    unfolding u d by (simp add: c)
  then obtain m' kd where
    "kdinit kdInit_spec kdBuildTree_spec ex_wide [PyArray 17, PyArray 11, PyLong 1]
       = Returns (Inr (PyCapsule 2), m')"
    "kd_heap m' 2 = Some kd" "mset (map iOrder (kd_p kd)) = mset [0, 1, 2]"
    by blast
  then have "stored_indices
       (kdinit kdInit_spec kdBuildTree_spec ex_wide [PyArray 17, PyArray 11, PyLong 1]) 2
     = Some (mset [0, 1, 2])"
    by (simp add: stored_indices_def)
  with b l show ?thesis by simp
qed

section \<open>Teardown\<close>

text \<open>
  Claim C9, as the code has it. Every call of \<open>kdfree\<close> on a live handle, the first or a
  later one, runs \<^verbatim>\<open>kdFinish\<close> and then drops one reference for each of the position,
  mass, smoothing and density pointers that is bound. It clears no pointer and marks
  nothing as torn down. (Nothing is said here of an array bound to a quantity slot.)
\<close>

theorem kdfree_drops_one_reference_each:
  assumes "kd_heap m k = Some kd0" and "kd_heap (kdFinish k m) k = Some kd"
  shows "\<exists>m'. kdfree kdFinish m [PyCapsule k] = Returns (Inr PyNone, m')
           \<and> kd_heap m' = kd_heap (kdFinish k m) \<and> arrays m' = arrays (kdFinish k m)
           \<and> (\<forall>a. Some a \<noteq> pNumpyQty kd \<and> Some a \<noteq> pNumpyQtySmoothed kd \<longrightarrow>
                 ob_refcnt m' a = ob_refcnt (kdFinish k m) a
                   - int (count_list [pNumpyPos kd, pNumpyMass kd, pNumpySmooth kd, pNumpyDen kd]
                            (Some a)))"
  using assms
  by (simp add: kdfree_def PyCapsule_GetPointer_def Let_def ob_refcnt_XDECREF)

theorem kdfree_drops_one_reference_each_witness:
  "refcnt_after (kdfree kdFinish_spec ex_machine [PyCapsule 0]) 11 = Some 1
   \<and> refcnt_after (kdfree kdFinish_spec ex_machine [PyCapsule 0]) 12 = Some 1"
proof -
  have a: "kd_heap ex_machine 0 = Some ex_kd" by (simp add: ex_defs)
  have b: "kd_heap (kdFinish_spec 0 ex_machine) 0 = Some (ex_kd\<lparr>kd_p := [], kdNodes := None\<rparr>)"
    by (simp add: kdFinish_spec_def ex_defs)
  from kdfree_drops_one_reference_each[where kdFinish = kdFinish_spec, OF a b] show ?thesis
    by (auto simp: refcnt_after_def kdFinish_spec_def ex_defs)
qed

text \<open>The index of the small host state holds one of the two references to the position
  array 10. The first teardown drops it; the second drops the host's own.\<close>

theorem kdfree_twice_counterexample:
  "refcnt_after (kdfree kdFinish_spec ex_machine [PyCapsule 0]) 10 = Some 1
   \<and> refcnt_after (kdfree_twice kdFinish_spec ex_machine [PyCapsule 0]) 10 = Some 0
   \<and> ob_refcnt ex_machine 10 = 2"
  by (simp add: kdfree_twice_def kdfree_def refcnt_after_def kdFinish_spec_def
      PyCapsule_GetPointer_def Py_XDECREF_def Let_def ex_defs)

section \<open>Validation before the pipeline\<close>

lemma populate_checks_rho_None_iff:
  "populate_checks m kd 2 = None \<longleftrightarrow>
     bound_double m (pNumpySmooth kd) \<and> bound_double m (pNumpyDen kd)
     \<and> bound_double m (pNumpyMass kd)"
  by (auto simp: populate_checks_def checkArray_None_iff[symmetric] split: option.splits)

text \<open>
  Claim C6. When the smoothing-length, density or mass pointer of the tree is \<^verbatim>\<open>NULL\<close> or
  bound to an array that is no double array, \<open>populate\<close> with the density property
  returns \<^verbatim>\<open>NULL\<close> with the exception of the first failing check, and the state is the one
  it was called in. The result is the same for all functions \<open>F\<close> of \<^verbatim>\<open>smooth.c\<close>: none of
  them, so no neighbour query and no write, takes part.
\<close>

theorem populate_density_gate:
  assumes "kd_heap m k = Some kd" and "pNumpyPos kd = Some pa" and "dims (arrays m pa) \<noteq> []"
    and "is_c_int procid"
    and "\<not> bound_double m (pNumpySmooth kd) \<or> \<not> bound_double m (pNumpyDen kd)
         \<or> \<not> bound_double m (pNumpyMass kd)"
  shows "\<exists>e. populate_checks m kd 2 = Some e
           \<and> populate F m [PyCapsule k, smxobj, PyLong 2, PyLong procid] = Returns (Inl e, m)"
proof -
  from assms(5) have "populate_checks m kd 2 \<noteq> None"
    by (simp add: populate_checks_rho_None_iff)
  then obtain e where e: "populate_checks m kd 2 = Some e" by blast
  obtain d ds where d: "dims (arrays m pa) = d # ds"
    using assms(3) by (cases "dims (arrays m pa)") auto
  have "populate F m [PyCapsule k, smxobj, PyLong 2, PyLong procid] = Returns (Inl e, m)"
    using assms(1,2,4) d e
    by (simp add: populate_def PyCapsule_GetPointer_def is_c_int_def)
  with e show ?thesis by blast
qed

text \<open>The tree of \<open>ex_machine\<close> has no smoothing-length field.\<close>

theorem populate_density_gate_witness:
  "\<forall>F. populate F ex_machine [PyCapsule 0, PyCapsule 1, PyLong 2, PyLong 0]
         = Returns (Inl (ValueError ''Unspecified array in kdtree''), ex_machine)"
proof
  fix F
  have a: "kd_heap ex_machine 0 = Some ex_kd" by (simp add: ex_defs)
  have b: "pNumpyPos ex_kd = Some 10" by (simp add: ex_defs)
  have c: "dims (arrays ex_machine 10) \<noteq> []" by (simp add: ex_defs)
  have d: "is_c_int 0" by (simp add: is_c_int_def)
  have e: "\<not> bound_double ex_machine (pNumpySmooth ex_kd) \<or> \<not> bound_double ex_machine (pNumpyDen ex_kd)
         \<or> \<not> bound_double ex_machine (pNumpyMass ex_kd)"
    by (simp add: bound_double_def ex_defs)
  have f: "populate_checks ex_machine ex_kd 2 = Some (ValueError ''Unspecified array in kdtree'')"
    by (simp add: populate_checks_def checkArray_def ex_defs)
  from populate_density_gate[OF a b c d e, of F "PyCapsule 1"] f
  show "populate F ex_machine [PyCapsule 0, PyCapsule 1, PyLong 2, PyLong 0]
         = Returns (Inl (ValueError ''Unspecified array in kdtree''), ex_machine)"
    by auto
qed

text \<open>
  Claim C7. On a live handle, \<open>domain_decomposition\<close> raises exactly when the number of
  workers is negative or the smoothing-length pointer is not bound to a double array, and
  then the state is unchanged; otherwise it returns \<^verbatim>\<open>None\<close> and the state is the one
  \<^verbatim>\<open>smDomainDecomposition\<close> leaves, whatever that function is. With zero workers and the
  decomposition of the specification the state is unchanged.
\<close>

theorem domain_decomposition_validation:
  assumes "kd_heap m k = Some kd" and "is_c_int nproc"
  shows "(if nproc < 0 \<or> \<not> bound_double m (pNumpySmooth kd)
          then \<exists>e. domain_decomposition smDD m [PyCapsule k, PyLong nproc] = Returns (Inl e, m)
          else domain_decomposition smDD m [PyCapsule k, PyLong nproc]
                 = Returns (Inr PyNone, smDD k nproc m))
       \<and> (bound_double m (pNumpySmooth kd) \<longrightarrow>
            domain_decomposition smDomainDecomposition_spec m [PyCapsule k, PyLong 0]
              = Returns (Inr PyNone, m))"
  using assms
  by (auto simp: domain_decomposition_def PyCapsule_GetPointer_def is_c_int_def
      checkArray_None_iff[symmetric] smDomainDecomposition_spec_def split: option.splits)

theorem domain_decomposition_validation_witness:
  "(\<forall>smDD. raised (domain_decomposition smDD ex_machine [PyCapsule 0, PyLong 2]) \<noteq> None)
   \<and> (\<forall>smDD. raised (domain_decomposition smDD ex_bound [PyCapsule 0, PyLong (- 1)]) \<noteq> None)
   \<and> (\<forall>smDD. domain_decomposition smDD ex_bound [PyCapsule 0, PyLong 2]
         = Returns (Inr PyNone, smDD 0 2 ex_bound))
   \<and> domain_decomposition smDomainDecomposition_spec ex_bound [PyCapsule 0, PyLong 0]
       = Returns (Inr PyNone, ex_bound)"
proof -
  have a: "kd_heap ex_machine 0 = Some ex_kd" by (simp add: ex_defs)
  have b: "kd_heap ex_bound 0 = Some ex_kd_bound" by (simp add: ex_defs)
  have c: "is_c_int 2" "is_c_int (- 1)" "is_c_int 0" by (simp_all add: is_c_int_def)
  have d: "\<not> bound_double ex_machine (pNumpySmooth ex_kd)" by (simp add: bound_double_def ex_defs)
  have e: "bound_double ex_bound (pNumpySmooth ex_kd_bound)"
    by (simp add: bound_double_def is_double_array_def ex_defs)
  have 1: "raised (domain_decomposition smDD ex_machine [PyCapsule 0, PyLong 2]) \<noteq> None" for smDD
    using domain_decomposition_validation[OF a c(1), of smDD] d by (auto simp: raised_def)
  have 2: "raised (domain_decomposition smDD ex_bound [PyCapsule 0, PyLong (- 1)]) \<noteq> None" for smDD
    using domain_decomposition_validation[OF b c(2), of smDD] by (auto simp: raised_def)
  have 3: "domain_decomposition smDD ex_bound [PyCapsule 0, PyLong 2]
         = Returns (Inr PyNone, smDD 0 2 ex_bound)" for smDD
    using domain_decomposition_validation[OF b c(1), of smDD] e by simp
  have 4: "domain_decomposition smDomainDecomposition_spec ex_bound [PyCapsule 0, PyLong 0]
       = Returns (Inr PyNone, ex_bound)"
    using domain_decomposition_validation[OF b c(3), THEN conjunct2] e by simp
  from 1 2 3 4 show ?thesis by blast
qed

section \<open>The query session\<close>

text \<open>When \<^verbatim>\<open>smSmoothStep\<close> returns 0, \<open>nn_next\<close> returns \<^verbatim>\<open>None\<close>. When it returns a positive
  count and the reads are in range, \<open>nn_next\<close> returns the cursor position, the value of
  the smoothing array at the particle's original index, and the first \<open>nCnt\<close> entries of
  the two scratch lists.\<close>

lemma GET_smx_heap_update: "GET (m\<lparr>smx_heap := f\<rparr>) x i = GET m x i"
  by (cases x) (simp_all add: GET_def)

lemma nn_next_positive_count:
  assumes "smx_heap m s = Some smx0" and "step smx0 0 m = (nCnt, smx, m0)" and "0 < nCnt"
    and "nat nCnt \<le> length (pList smx)" and "nat nCnt \<le> length (fList smx)"
    and "kd_heap m0 (smx_kd smx) = Some kd" and "particle_at kd (smx_pi smx) = Some q"
    and "GET m0 (pNumpySmooth kd) (iOrder q) = Some h"
  shows "nn_next step m [kdobj, PyCapsule s]
           = Returns (Inr (PyList
               [Some (PyLong (smx_pi smx)), Some (PyFloat h),
                Some (PyList (map Some (take (nat nCnt) (map PyLong (pList smx))))),
                Some (PyList (map Some (take (nat nCnt) (map PyFloat (fList smx)))))]),
               m0\<lparr>smx_heap := (smx_heap m0)(s := Some smx)\<rparr>)"
  using assms
  by (simp add: nn_next_def PyCapsule_GetPointer_def filled_list_def GET_smx_heap_update)


lemma nn_next_zero_is_done:
  assumes "smx_heap m s = Some smx0" and "step smx0 0 m = (0, smx, m0)"
  shows "nn_next step m [kdobj, PyCapsule s]
           = Returns (Inr PyNone, m0\<lparr>smx_heap := (smx_heap m0)(s := Some smx)\<rparr>)"
  using assms by (simp add: nn_next_def PyCapsule_GetPointer_def)

text \<open>
  Claim C8 fails where \<^verbatim>\<open>smSmoothStep\<close> reports the end of the particles as \<open>populate\<close>
  expects it, by returning \<open>-1\<close>: \<open>nn_next\<close> tests \<^verbatim>\<open>nCnt != 0\<close>, so it does not return
  \<^verbatim>\<open>None\<close>. Where the reads are in range it returns a list of four items whose neighbour
  lists are \<^verbatim>\<open>NULL\<close> (\<^verbatim>\<open>PyList_New(-1)\<close>).
\<close>

theorem nn_next_exhausted_not_done:
  assumes "smx_heap m s = Some smx0" and "fst (step smx0 0 m) = - 1"
  shows "returned (nn_next step m [kdobj, PyCapsule s]) \<noteq> Some PyNone
       \<and> (nn_next step m [kdobj, PyCapsule s] = Undefined
          \<or> (\<exists>c h m'. nn_next step m [kdobj, PyCapsule s]
                = Returns (Inr (PyList [Some (PyLong c), Some (PyFloat h), None, None]), m')))"
  using assms
  by (cases "step smx0 0 m")
     (auto simp: nn_next_def PyCapsule_GetPointer_def returned_def filled_list_def Let_def
           split: option.splits outcome.splits prod.splits)

text \<open>A session of the small host state whose step function reports \<open>-1\<close>.\<close>

theorem nn_next_exhausted_not_done_witness:
  "returned (nn_next (\<lambda>smx procid m. (- 1, smx, m)) ex_bound [PyCapsule 0, PyCapsule 1])
     = Some (PyList [Some (PyLong 2), Some (PyFloat 1), None, None])"
proof -
  have a: "smx_heap ex_bound 1 = Some ex_smx" by (simp add: ex_defs)
  have b: "fst ((\<lambda>smx procid m. (- 1, smx, m)) ex_smx 0 ex_bound) = (- 1 :: int)" by simp
  from nn_next_exhausted_not_done[where step = "\<lambda>smx procid m. (- 1, smx, m)", OF a b, of "PyCapsule 0"]
  show ?thesis
    by (auto simp: nn_next_def PyCapsule_GetPointer_def returned_def filled_list_def Let_def
        particle_at_def GET_def ex_defs)
qed

section \<open>The density pass\<close>

lemma field_of_length_bound: "field_of_length m x n \<Longrightarrow> bound_double m x"
  by (auto simp: field_of_length_def bound_double_def split: option.splits)

lemma field_of_lengthD:
  assumes "field_of_length m x n"
  obtains a where "x = Some a" "is_double_array m a" "int (length (elems (arrays m a))) = n"
  using assms by (auto simp: field_of_length_def split: option.splits)

lemma pass_readyD:
  assumes "pass_ready m k n"
  obtains kd pa sa where "kd_heap m k = Some kd" "pNumpyPos kd = Some pa"
    "pNumpySmooth kd = Some sa"
    "dims (arrays m pa) = [n, 3]" "int (length (elems (arrays m pa))) = 3 * n"
    "int (length (kd_p kd)) = n"
    "list_all (\<lambda>q. 0 \<le> iOrder q \<and> iOrder q < n
        \<and> floats_ok (elems (arrays m pa)) (elems (arrays m sa)) (nat (iOrder q))) (kd_p kd)"
    "field_of_length m (pNumpySmooth kd) n" "field_of_length m (pNumpyDen kd) n"
    "field_of_length m (pNumpyMass kd) n"
    "pNumpyDen kd \<noteq> Some pa" "pNumpyDen kd \<noteq> Some sa"
  using assms by (auto simp: pass_ready_def split: option.splits)

lemma to_float_Some: "to_float x \<noteq> None \<Longrightarrow> to_float x = Some (float_round x)"
  by (simp add: to_float_def split: if_splits)

lemma ball_radius2_Some:
  "ball_radius2 hsm \<noteq> None
   \<Longrightarrow> ball_radius2 hsm = Some (float_round (float_round (4 * hsm) * hsm))"
  by (auto simp: ball_radius2_def float_mul_def to_float_def split: option.splits if_splits)

lemma floats_okD:
  assumes "floats_ok pos sm j"
  shows "to_float (pos ! (3 * j)) = Some (float_round (pos ! (3 * j)))"
    "to_float (pos ! (3 * j + 1)) = Some (float_round (pos ! (3 * j + 1)))"
    "to_float (pos ! (3 * j + 2)) = Some (float_round (pos ! (3 * j + 2)))"
    "to_float (sm ! j) = Some (float_round (sm ! j))"
    "ball_radius2 (float_round (sm ! j))
       = Some (float_round (float_round (4 * float_round (sm ! j)) * float_round (sm ! j)))"
proof -
  from assms show "to_float (pos ! (3 * j)) = Some (float_round (pos ! (3 * j)))"
    "to_float (pos ! (3 * j + 1)) = Some (float_round (pos ! (3 * j + 1)))"
    "to_float (pos ! (3 * j + 2)) = Some (float_round (pos ! (3 * j + 2)))"
    by (simp_all add: floats_ok_def to_float_Some)
  from assms have a: "to_float (sm ! j) \<noteq> None"
    by (auto simp: floats_ok_def split: option.splits)
  then show b: "to_float (sm ! j) = Some (float_round (sm ! j))" by (rule to_float_Some)
  from assms b have "ball_radius2 (float_round (sm ! j)) \<noteq> None"
    by (simp add: floats_ok_def)
  then show "ball_radius2 (float_round (sm ! j))
       = Some (float_round (float_round (4 * float_round (sm ! j)) * float_round (sm ! j)))"
    by (rule ball_radius2_Some)
qed

lemma particle_at_Some:
  "i < length (kd_p kd) \<Longrightarrow> particle_at kd (int i) = Some (kd_p kd ! i)"
  by (simp add: particle_at_def)

lemma GET_raw:
  assumes "int (length (elems (arrays m a))) = n" and "0 \<le> j" and "j < n"
  shows "GET m (Some a) j = Some (elems (arrays m a) ! nat j)"
  using assms by (auto simp: GET_def)

lemma GET2_raw:
  assumes "int (length (elems (arrays m pa))) = 3 * n" and "0 \<le> j" and "j < n" and "d < 3"
  shows "GET2 m (Some pa) j (int d) = Some (elems (arrays m pa) ! (3 * nat j + d))"
proof -
  have "nat (3 * j + int d) = 3 * nat j + d" using assms(2) by (simp add: nat_add_distrib nat_mult_distrib)
  with assms show ?thesis by (auto simp: GET2_def GET_def)
qed

text \<open>The reads of the model of \<^verbatim>\<open>smooth.c\<close>, on the arrays themselves.\<close>

lemma position_raw:
  assumes "pNumpyPos kd = Some pa" and "int (length (elems (arrays m pa))) = 3 * n"
    and "0 \<le> iOrder q" and "iOrder q < n"
  shows "position m kd q = row3 (elems (arrays m pa)) (nat (iOrder q))"
  using GET2_raw[OF assms(2,3,4), of 0] GET2_raw[OF assms(2,3,4), of 1]
    GET2_raw[OF assms(2,3,4), of 2] assms(1)
  by (simp add: position_def coord_def row3_def)

lemma enumerate_nth: "enumerate 0 xs = map (\<lambda>j. (j, xs ! j)) [0..<length xs]"
  by (rule nth_equalityI) (simp_all add: nth_enumerate_eq)

lemma ball_raw:
  assumes "pNumpyPos kd = Some pa" and "int (length (elems (arrays m pa))) = 3 * n"
    and "list_all (\<lambda>q. 0 \<le> iOrder q \<and> iOrder q < n) (kd_p kd)"
  shows "ball m kd c r2
     = map (\<lambda>j. (int j, dist2 (row3 (elems (arrays m pa)) (nat (iOrder (kd_p kd ! j)))) c))
         (filter (\<lambda>j. dist2 (row3 (elems (arrays m pa)) (nat (iOrder (kd_p kd ! j)))) c \<le> r2)
            [0..<length (kd_p kd)])"
proof -
  have p: "position m kd (kd_p kd ! j) = row3 (elems (arrays m pa)) (nat (iOrder (kd_p kd ! j)))"
    if "j < length (kd_p kd)" for j
    using position_raw[OF assms(1,2), of "kd_p kd ! j"] assms(3) that
    by (simp add: list_all_length)
  have f: "filter (\<lambda>x. dist2 (position m kd (kd_p kd ! x)) c \<le> r2) [0..<length (kd_p kd)]
      = filter (\<lambda>j. dist2 (row3 (elems (arrays m pa)) (nat (iOrder (kd_p kd ! j)))) c \<le> r2)
          [0..<length (kd_p kd)]"
    by (rule filter_cong) (simp_all add: p)
  have "ball m kd c r2
     = map (\<lambda>x. (int x, dist2 (position m kd (kd_p kd ! x)) c))
         (filter (\<lambda>x. dist2 (position m kd (kd_p kd ! x)) c \<le> r2) [0..<length (kd_p kd)])"
    unfolding ball_def enumerate_nth by (simp add: filter_map comp_def)
  also have "\<dots> = map (\<lambda>j. (int j, dist2 (row3 (elems (arrays m pa)) (nat (iOrder (kd_p kd ! j)))) c))
         (filter (\<lambda>x. dist2 (position m kd (kd_p kd ! x)) c \<le> r2) [0..<length (kd_p kd)])"
    by (rule map_cong) (simp_all add: p)
  finally show ?thesis unfolding f .
qed

lemma mass_of_raw:
  assumes "pNumpyMass kd = Some ma" and "int (length (elems (arrays m ma))) = n"
    and "list_all (\<lambda>q. 0 \<le> iOrder q \<and> iOrder q < n) (kd_p kd)" and "j < length (kd_p kd)"
  shows "mass_of m kd (int j) = elems (arrays m ma) ! nat (iOrder (kd_p kd ! j))"
proof -
  have "0 \<le> iOrder (kd_p kd ! j)" "iOrder (kd_p kd ! j) < n"
    using assms(3,4) by (simp_all add: list_all_length)
  from GET_raw[OF assms(2) this] show ?thesis
    using assms(1,4) by (simp add: mass_of_def particle_at_Some)
qed

lemma weighted_mass_raw:
  assumes "pNumpyMass kd = Some ma" and "int (length (elems (arrays m ma))) = n"
    and "list_all (\<lambda>q. 0 \<le> iOrder q \<and> iOrder q < n) (kd_p kd)"
    and "\<forall>j\<in>set nb. j < length (kd_p kd)"
  shows "weighted_mass W m kd h (map (\<lambda>j. (int j, d j)) nb)
     = sum_list (map (\<lambda>j. W h (d j) * (elems (arrays m ma) ! nat (iOrder (kd_p kd ! j)))) nb)"
  using assms(4) mass_of_raw[OF assms(1,2,3)]
  by (simp add: weighted_mass_def comp_def cong: map_cong)

lemma zip_fst_snd: "zip (map fst xs) (map snd xs) = xs"
  by (induction xs) auto


lemma density_step_pin [simp]: "pin_global (density_step nw W k m i) = pin_global m"
  by (simp add: density_step_def Let_def split: option.splits)

lemma density_step_kd_heap [simp]: "kd_heap (density_step nw W k m i) = kd_heap m"
  by (simp add: density_step_def Let_def split: option.splits)

lemma density_step_set_pin:
  "density_step nw W k (m\<lparr>pin_global := p\<rparr>) i = (density_step nw W k m i)\<lparr>pin_global := p\<rparr>"
  by (simp add: density_step_def Let_def split: option.splits)

lemma foldl_density_step_set_pin:
  "foldl (density_step nw W k) (m\<lparr>pin_global := p\<rparr>) js
     = (foldl (density_step nw W k) m js)\<lparr>pin_global := p\<rparr>"
  by (induction js arbitrary: m) (simp_all add: density_step_set_pin)

lemma density_step_arrays:
  assumes "kd_heap m k = Some kd" and "pNumpyDen kd = Some da" and "a \<noteq> da"
  shows "arrays (density_step nw W k m i) a = arrays m a"
  using assms by (simp add: density_step_def Let_def split: option.splits)

lemma density_step_shape:
  "dims (arrays (density_step nw W k m i) a) = dims (arrays m a)
   \<and> descr (arrays (density_step nw W k m i) a) = descr (arrays m a)
   \<and> length (elems (arrays (density_step nw W k m i) a)) = length (elems (arrays m a))"
  by (simp add: density_step_def Let_def split: option.splits)

lemma field_of_length_density_step:
  "field_of_length (density_step nw W k m i) x n = field_of_length m x n"
  by (cases x) (simp_all add: field_of_length_def is_double_array_def density_step_shape)

lemma pass_ready_density_step:
  assumes "pass_ready m k n"
  shows "pass_ready (density_step nw W k m i) k n"
proof -
  from assms obtain kd pa sa where kd: "kd_heap m k = Some kd" and pa: "pNumpyPos kd = Some pa"
    and sa: "pNumpySmooth kd = Some sa"
    and dm: "dims (arrays m pa) = [n, 3]" and len: "int (length (elems (arrays m pa))) = 3 * n"
    and np: "int (length (kd_p kd)) = n"
    and io: "list_all (\<lambda>q. 0 \<le> iOrder q \<and> iOrder q < n
        \<and> floats_ok (elems (arrays m pa)) (elems (arrays m sa)) (nat (iOrder q))) (kd_p kd)"
    and sm: "field_of_length m (pNumpySmooth kd) n" and de: "field_of_length m (pNumpyDen kd) n"
    and ma: "field_of_length m (pNumpyMass kd) n"
    and ne: "pNumpyDen kd \<noteq> Some pa" "pNumpyDen kd \<noteq> Some sa"
    by (rule pass_readyD)
  from de obtain da where da: "pNumpyDen kd = Some da" by (rule field_of_lengthD)
  have a: "arrays (density_step nw W k m i) pa = arrays m pa"
    "arrays (density_step nw W k m i) sa = arrays m sa"
    using ne da by (simp_all add: density_step_arrays[OF kd da])
  show ?thesis
    using kd pa sa dm len np io sm de ma ne
    by (simp add: pass_ready_def a field_of_length_density_step)
qed

lemma field_of_length_set_pin [simp]:
  "field_of_length (m\<lparr>pin_global := p\<rparr>) x n = field_of_length m x n"
  by (cases x) (simp_all add: field_of_length_def is_double_array_def)

lemma pass_ready_set_pin [simp]: "pass_ready (m\<lparr>pin_global := p\<rparr>) k n = pass_ready m k n"
  by (simp add: pass_ready_def cong: option.case_cong)

lemma set_pin_same: "pin_global m = p \<Longrightarrow> m\<lparr>pin_global := p\<rparr> = m"
  by (cases m) simp

text \<open>
  One pass of the body of the loop does, on the arrays, what \<open>density_step\<close> says with the
  narrowing of the floats, and then claims the next particle.
\<close>

lemma rho_body_spec:
  assumes "pass_ready m k n" and "smx_kd smx = k" and "int i < n"
  shows "\<exists>smx1. rho_body (rho_fns W step) k (int i) smx m
            = Returns (smGetNext_spec smx1 (density_step float_round W k m i))
          \<and> smx_kd smx1 = k"
proof -
  from assms(1) obtain kd pa sa where kd: "kd_heap m k = Some kd" and pa: "pNumpyPos kd = Some pa"
    and sa: "pNumpySmooth kd = Some sa"
    and len: "int (length (elems (arrays m pa))) = 3 * n"
    and np: "int (length (kd_p kd)) = n"
    and io: "list_all (\<lambda>q. 0 \<le> iOrder q \<and> iOrder q < n
        \<and> floats_ok (elems (arrays m pa)) (elems (arrays m sa)) (nat (iOrder q))) (kd_p kd)"
    and sm: "field_of_length m (pNumpySmooth kd) n" and de: "field_of_length m (pNumpyDen kd) n"
    and ma: "field_of_length m (pNumpyMass kd) n"
    by (rule pass_readyD)
  from de obtain da where da: "pNumpyDen kd = Some da" by (rule field_of_lengthD)
  from ma obtain mm where mm: "pNumpyMass kd = Some mm"
    and lm: "int (length (elems (arrays m mm))) = n" by (rule field_of_lengthD)
  from sm sa have ls: "int (length (elems (arrays m sa))) = n"
    by (simp add: field_of_length_def)
  have io': "list_all (\<lambda>q. 0 \<le> iOrder q \<and> iOrder q < n) (kd_p kd)"
    using io by (simp add: list_all_iff)
  have il: "i < length (kd_p kd)" using np assms(3) by simp
  define q where "q = kd_p kd ! i"
  define oi where "oi = nat (iOrder q)"
  define pos where "pos = elems (arrays m pa)"
  define h where "h = elems (arrays m sa) ! oi"
  define c where "c = (float_round (pos ! (3 * oi)), float_round (pos ! (3 * oi + 1)),
                       float_round (pos ! (3 * oi + 2)))"
  define r2 where "r2 = float_round (float_round (4 * float_round h) * float_round h)"
  define nb where "nb = filter (\<lambda>j. dist2 (row3 pos (nat (iOrder (kd_p kd ! j)))) c \<le> r2)
                          [0..<length (kd_p kd)]"
  define B where "B = ball m kd c r2"
  have pq: "particle_at kd (int i) = Some q" using il by (simp add: particle_at_Some q_def)
  have ioq: "0 \<le> iOrder q" "iOrder q < n"
    and fo: "floats_ok pos (elems (arrays m sa)) oi"
    using io il by (simp_all add: list_all_length q_def oi_def pos_def)
  have g: "GET2 m (pNumpyPos kd) (iOrder q) 0 = Some (pos ! (3 * oi))"
    "GET2 m (pNumpyPos kd) (iOrder q) 1 = Some (pos ! (3 * oi + 1))"
    "GET2 m (pNumpyPos kd) (iOrder q) 2 = Some (pos ! (3 * oi + 2))"
    using GET2_raw[OF len ioq, of 0] GET2_raw[OF len ioq, of 1] GET2_raw[OF len ioq, of 2]
    by (simp_all add: pa oi_def pos_def)
  have gh: "GET m (pNumpySmooth kd) (iOrder q) = Some h"
    using GET_raw[OF ls ioq] by (simp add: sa h_def oi_def)
  note f = floats_okD[OF fo, folded h_def]
  have Bv: "B = map (\<lambda>j. (int j, dist2 (row3 pos (nat (iOrder (kd_p kd ! j)))) c)) nb"
    unfolding B_def nb_def pos_def by (rule ball_raw[OF pa len io'])
  have nbl: "\<forall>j\<in>set nb. j < length (kd_p kd)" by (simp add: nb_def)
  have wm: "weighted_mass W m kd h B
      = sum_list (map (\<lambda>j. W h (dist2 (row3 pos (nat (iOrder (kd_p kd ! j)))) c)
                            * (elems (arrays m mm) ! nat (iOrder (kd_p kd ! j)))) nb)"
    unfolding Bv by (rule weighted_mass_raw[OF mm lm io' nbl])
  have ds: "density_step float_round W k m i = write_density m kd q (weighted_mass W m kd h B)"
    unfolding wm
    by (simp add: density_step_def kd pa sa mm da Let_def write_density_def
        q_def oi_def pos_def h_def c_def r2_def nb_def)
  have run: "rho_body (rho_fns W step) k (int i) smx m
      = Returns (smGetNext_spec (smx\<lparr>pList := map fst B, fList := map snd B\<rparr>)
          (write_density m kd q (weighted_mass W m kd h B)))"
    using kd pq g gh f assms(2)
    by (simp add: rho_body_def rho_fns_def smBallGather_spec_def smDensity_spec_def
        zip_fst_snd B_def c_def r2_def[symmetric])
  show ?thesis
    using run assms(2) unfolding ds by auto
qed


lemma filter_upt_Cons:
  "filter P [a..<n] = j # rest \<Longrightarrow> a \<le> j \<and> j < n \<and> rest = filter P [Suc j..<n]"
proof (induction "n - a" arbitrary: a)
  case 0
  then show ?case by simp
next
  case (Suc x)
  then have lt: "a < n" by simp
  then have u: "[a..<n] = a # [Suc a..<n]" by (simp add: upt_conv_Cons)
  show ?case
  proof (cases "P a")
    case True
    with Suc(3) u lt show ?thesis by auto
  next
    case False
    with Suc(3) u have "filter P [Suc a..<n] = j # rest" by simp
    moreover have "x = n - Suc a" using Suc(2) by simp
    ultimately have "Suc a \<le> j \<and> j < n \<and> rest = filter P [Suc j..<n]"
      using Suc(1) by blast
    then show ?thesis by simp
  qed
qed

lemma claimed_Cons:
  assumes "claimed kd c = j # rest"
  shows "c \<le> int j \<and> j < length (kd_p kd) \<and> rest = claimed kd (int j + 1)"
proof -
  have "nat (int j + 1) = Suc j" by simp
  with filter_upt_Cons[OF assms[unfolded claimed_def]] show ?thesis
    by (auto simp: claimed_def)
qed

lemma pass_ready_length:
  "pass_ready m k n \<Longrightarrow> kd_heap m k = Some kd \<Longrightarrow> int (length (kd_p kd)) = n"
  by (auto simp: pass_ready_def split: option.splits)

lemma rho_loop_spec:
  assumes "pass_ready m k n" and "kd_heap m k = Some kd" and "smx_kd smx = k"
    and "pin_global m = next_active kd c + 1"
  shows "\<exists>smx'. rho_loop (rho_fns W step) k n (next_active kd c) smx m
           = Some (Returns (smx', (foldl (density_step float_round W k) m (claimed kd c))
                \<lparr>pin_global := max c n + 1\<rparr>))"
  using assms
proof (induction "length (claimed kd c)" arbitrary: c m smx)
  case 0
  then have e: "claimed kd c = []" by simp
  have np: "int (length (kd_p kd)) = n" using 0(2,3) by (rule pass_ready_length)
  have i: "next_active kd c = max c n" by (simp add: next_active_def e np)
  have "m\<lparr>pin_global := max c n + 1\<rparr> = m" using 0(5) i by (simp add: set_pin_same)
  then show ?case by (subst rho_loop.simps) (simp add: i e)
next
  case (Suc x)
  then obtain j rest where jr: "claimed kd c = j # rest" by (cases "claimed kd c") simp_all
  have np: "int (length (kd_p kd)) = n" using Suc(3,4) by (rule pass_ready_length)
  from claimed_Cons[OF jr] have cj: "c \<le> int j" and jl: "j < length (kd_p kd)"
    and rest: "rest = claimed kd (int j + 1)" by simp_all
  have i: "next_active kd c = int j" by (simp add: next_active_def jr)
  have lt: "int j < n" using jl np by simp
  from rho_body_spec[OF Suc(3,5) lt, of W step] obtain smx1
    where b: "rho_body (rho_fns W step) k (int j) smx m
            = Returns (smGetNext_spec smx1 (density_step float_round W k m j))"
      and k1: "smx_kd smx1 = k" by blast
  define i1 where "i1 = next_active kd (int j + 1)"
  define m1 where "m1 = (density_step float_round W k m j)\<lparr>pin_global := i1 + 1\<rparr>"
  have gn: "smGetNext_spec smx1 (density_step float_round W k m j) = (i1, smx1, m1)"
    using Suc(4,6) k1 by (simp add: smGetNext_spec_def i m1_def i1_def)
  have r1: "pass_ready m1 k n" using Suc(3) by (simp add: m1_def pass_ready_density_step)
  have h1: "kd_heap m1 k = Some kd" using Suc(4) by (simp add: m1_def)
  have p1: "pin_global m1 = next_active kd (int j + 1) + 1" by (simp add: m1_def i1_def)
  have x: "x = length (claimed kd (int j + 1))" using Suc(2) jr rest by simp
  from Suc(1)[OF x r1 h1 k1 p1] obtain smx'
    where ih: "rho_loop (rho_fns W step) k n i1 smx1 m1
           = Some (Returns (smx', (foldl (density_step float_round W k) m1 rest)
                \<lparr>pin_global := max (int j + 1) n + 1\<rparr>))"
    by (auto simp: i1_def rest)
  have mx: "max (int j + 1) n = max c n" using lt cj by simp
  have "(foldl (density_step float_round W k) m1 rest)\<lparr>pin_global := max (int j + 1) n + 1\<rparr>
      = (foldl (density_step float_round W k) m (claimed kd c))\<lparr>pin_global := max c n + 1\<rparr>"
    by (simp add: m1_def foldl_density_step_set_pin jr mx)
  with ih b gn lt show ?case by (subst rho_loop.simps) (simp add: i)
qed

text \<open>
  The run of a density pass. \<open>populate\<close> claims the first active particle at or after the
  cursor, and the loop does the step of each claimed particle in turn, until the claim
  yields an index that is not below the number of rows.
\<close>

lemma density_pass_run:
  assumes "pass_ready m k n" and "smx_heap m s = Some smx" and "smx_kd smx = k"
    and "kd_heap m k = Some kd" and "is_c_int procid"
  shows "populate (rho_fns W step) m [PyCapsule k, PyCapsule s, PyLong 2, PyLong procid]
           = Returns (Inr PyNone,
               (foldl (density_step float_round W k) m (claimed kd (pin_global m)))
                 \<lparr>pin_global := max (pin_global m) n + 1\<rparr>)"
proof -
  from assms(1,4) obtain pa where pa: "pNumpyPos kd = Some pa"
    and dm: "dims (arrays m pa) = [n, 3]"
    and sm: "field_of_length m (pNumpySmooth kd) n" and de: "field_of_length m (pNumpyDen kd) n"
    and ma: "field_of_length m (pNumpyMass kd) n"
    by (auto elim!: pass_readyD)
  have ck: "populate_checks m kd 2 = None"
    using sm de ma by (simp add: populate_checks_rho_None_iff field_of_length_bound)
  define smx_local where
    "smx_local = (smInitThreadLocalCopy_spec smx)\<lparr>warnings := False, smx_pi := 0\<rparr>"
  define i0 where "i0 = next_active kd (pin_global m)"
  define m0 where "m0 = m\<lparr>pin_global := i0 + 1\<rparr>"
  have kl: "smx_kd smx_local = k"
    using assms(3) by (simp add: smx_local_def smInitThreadLocalCopy_spec_def)
  have r0: "pass_ready m0 k n" using assms(1) by (simp add: m0_def)
  have h0: "kd_heap m0 k = Some kd" using assms(4) by (simp add: m0_def)
  have p0: "pin_global m0 = next_active kd (pin_global m) + 1" by (simp add: m0_def i0_def)
  from rho_loop_spec[OF r0 h0 kl p0, of W step] obtain smx'
    where lp: "rho_loop (rho_fns W step) k n i0 smx_local m0
           = Some (Returns (smx', (foldl (density_step float_round W k) m0 (claimed kd (pin_global m)))
                \<lparr>pin_global := max (pin_global m) n + 1\<rparr>))"
    by (auto simp: i0_def)
  have fin: "(foldl (density_step float_round W k) m0 (claimed kd (pin_global m)))
                \<lparr>pin_global := max (pin_global m) n + 1\<rparr>
      = (foldl (density_step float_round W k) m (claimed kd (pin_global m)))
                \<lparr>pin_global := max (pin_global m) n + 1\<rparr>"
    by (simp add: m0_def foldl_density_step_set_pin)
  have gn: "smGetNext (rho_fns W step) smx_local m = (i0, smx_local, m0)"
    using assms(4) kl by (simp add: rho_fns_def smGetNext_spec_def m0_def i0_def)
  have il: "(smInitThreadLocalCopy (rho_fns W step) smx)\<lparr>warnings := False, smx_pi := 0\<rparr> = smx_local"
    by (simp add: rho_fns_def smx_local_def)
  have ft: "smFinishThreadLocalCopy (rho_fns W step) = smFinishThreadLocalCopy_spec"
    by (simp add: rho_fns_def)
  show ?thesis
    using assms(4) pa dm ck assms(2,5) lp
    by (simp add: populate_def PyCapsule_GetPointer_def is_c_int_def il gn ft fin
        smFinishThreadLocalCopy_spec_def)
qed

text \<open>The floats nearest to the values of the examples: \<open>1 + 2^-30\<close> narrows to 1 and
  \<open>2 + 2^-29\<close> to 2.\<close>

lemma float_exponent_values:
  "float_exponent 0 = - 126" "float_exponent 1 = 0" "float_exponent 4 = 2"
  "float_exponent 5 = 2" "float_exponent (1073741825 / 536870912) = 1"
  "float_exponent (1073741825 / 1073741824) = 0"
  by (simp_all add: float_exponent_def pow2_def upto_rec1)

lemma float_round_values:
  "float_round 0 = 0" "float_round 1 = 1" "float_round 4 = 4" "float_round 5 = 5"
  "float_round (1073741825 / 536870912) = 2" "float_round (1073741825 / 1073741824) = 1"
  by (simp_all add: float_round_def float_exponent_values pow2_def round_half_even_def)

lemma to_float_values:
  "to_float 0 = Some 0" "to_float 1 = Some 1" "to_float 4 = Some 4" "to_float 5 = Some 5"
  "to_float (1073741825 / 536870912) = Some 2" "to_float (1073741825 / 1073741824) = Some 1"
  by (simp_all add: to_float_def float_round_values pow2_def)

lemma ball_radius2_1: "ball_radius2 1 = Some 4"
  by (simp add: ball_radius2_def float_mul_def to_float_values)

lemmas pass_defs = ex_pass_def pass_arrays_def pass_kd_def pass_kd_heap_def ex_smx_heap_def
  ex_smx_def float64_def
lemmas narrow_defs = ex_narrow_def narrow_arrays_def narrow_kd_def narrow_kd_heap_def
  ex_smx_heap_def ex_smx_def float64_def

text \<open>
  Claim C5, as the code has it. On a state that is ready for a pass over \<open>n\<close> particles,
  with a session on the tree, \<open>populate\<close> with the density property and the functions of
  the specification returns \<^verbatim>\<open>None\<close>, and the state it leaves is the one obtained by
  taking the claimed particles, that is the active particles from the cursor on, in
  the order of their claims, and doing for each what \<open>density_step\<close> says with the
  narrowing to single precision: gather the ball around the particle's position narrowed
  to floats, of squared radius the float product \<^verbatim>\<open>4*hsm*hsm\<close>, \<^verbatim>\<open>hsm\<close> being the float nearest
  to the smoothing length stored for the particle at that moment, and write the
  kernel-weighted sum of the gathered masses at the particle's original index of the
  density field. The cursor ends past the last claim.
\<close>

theorem populate_density_pass:
  assumes "pass_ready m k n" and "smx_heap m s = Some smx" and "smx_kd smx = k"
    and "kd_heap m k = Some kd" and "is_c_int procid"
  shows "populate (rho_fns W step) m [PyCapsule k, PyCapsule s, PyLong 2, PyLong procid]
           = Returns (Inr PyNone,
               (foldl (density_step float_round W k) m (claimed kd (pin_global m)))
                 \<lparr>pin_global := max (pin_global m) n + 1\<rparr>)"
  using assms by (rule density_pass_run)

text \<open>
  On the permuted tree, with the kernel \<open>h / (1 + d)\<close>. The claimed particles are the
  physical indices 0 and 2. Physical index 0 is original index 2, at x = 5, alone in its
  ball: its mass 7 goes to element 2 of the density array. Physical index 2 is original
  index 1, at x = 1, with the particle at x = 0 in its ball at squared distance 1:
  \<open>3 + 2 / 2 = 4\<close> goes to element 1. Element 0, of the inactive particle, is not
  written.
\<close>

theorem populate_density_pass_witness:
  "claimed pass_kd 0 = [0, 2]
   \<and> elems_after (populate (rho_fns ex_kernel idle_step) ex_pass
        [PyCapsule 0, PyCapsule 1, PyLong 2, PyLong 0]) 23
     = Some [0, 4, 7]"
proof -
  have a: "pass_ready ex_pass 0 3"
    by (simp add: pass_ready_def field_of_length_def is_double_array_def floats_ok_def
        to_float_values ball_radius2_1 pass_defs)
  have b: "smx_heap ex_pass 1 = Some ex_smx" by (simp add: pass_defs)
  have c: "smx_kd ex_smx = 0" by (simp add: ex_smx_def)
  have d: "kd_heap ex_pass 0 = Some pass_kd" by (simp add: ex_pass_def pass_kd_heap_def)
  have e: "is_c_int 0" by (simp add: is_c_int_def)
  have f: "pin_global ex_pass = 0" by (simp add: ex_pass_def)
  have cl: "claimed pass_kd 0 = [0, 2]"
    by (simp add: claimed_def active_def pass_kd_def upt_rec)
  have s1: "density_step float_round ex_kernel 0 ex_pass 0
      = ex_pass\<lparr>arrays := pass_arrays(23 := \<lparr>descr = Some float64, dims = [3], elems = [0, 0, 7]\<rparr>)\<rparr>"
    by (simp add: density_step_def Let_def row3_def dist2_def float_round_values
        ex_kernel_def upt_rec pass_defs)
  have g: "elems (arrays (foldl (density_step float_round ex_kernel 0) ex_pass [0, 2]) 23)
             = [0, 4, 7]"
    by (simp add: s1) (simp add: density_step_def Let_def row3_def dist2_def
        float_round_values ex_kernel_def upt_rec pass_defs)
  from populate_density_pass[OF a b c d e, of ex_kernel idle_step] f cl g
  show ?thesis by (simp add: elems_after_def)
qed

text \<open>
  The squared radius is not exactly \<open>4 h h\<close>, and the centre is not exactly the position.
  On the two particles at x = 0 and x = 2 + 2^-29, with smoothing lengths 1 + 2^-30 and
  1 and a constant kernel, \<open>populate\<close> leaves the densities 1 and 2: the first particle's
  \<^verbatim>\<open>hsm\<close> is the float 1 and its ball, of squared radius 4, does not reach the second
  particle; the second particle's centre is the float 2, at squared distance exactly 4
  from the first particle. With the squared radius exactly \<open>4 h h\<close> of the stored \<open>h\<close>
  around the stored position, which is \<open>density_step\<close> without narrowing, the densities
  are 2 and 1: the first particle's ball, of squared radius \<open>(2 + 2^-29)\<^sup>2\<close>, reaches the
  second particle, and the second particle's does not reach the first.
\<close>

theorem populate_exact_radius_counterexample:
  "elems_after (populate (rho_fns unit_kernel idle_step) ex_narrow
        [PyCapsule 0, PyCapsule 1, PyLong 2, PyLong 0]) 33
     = Some [1, 2]
   \<and> elems (arrays (foldl (density_step id unit_kernel 0) ex_narrow (claimed narrow_kd 0)) 33)
     = [2, 1]"
proof -
  have a: "pass_ready ex_narrow 0 2"
    by (simp add: pass_ready_def field_of_length_def is_double_array_def floats_ok_def
        to_float_values ball_radius2_1 narrow_defs)
  have b: "smx_heap ex_narrow 1 = Some ex_smx" by (simp add: narrow_defs)
  have c: "smx_kd ex_smx = 0" by (simp add: ex_smx_def)
  have d: "kd_heap ex_narrow 0 = Some narrow_kd" by (simp add: ex_narrow_def narrow_kd_heap_def)
  have e: "is_c_int 0" by (simp add: is_c_int_def)
  have f: "pin_global ex_narrow = 0" by (simp add: ex_narrow_def)
  have cl: "claimed narrow_kd 0 = [0, 1]"
    by (simp add: claimed_def active_def narrow_kd_def upt_rec)
  have s1: "density_step float_round unit_kernel 0 ex_narrow 0
      = ex_narrow\<lparr>arrays := narrow_arrays(33 := \<lparr>descr = Some float64, dims = [2], elems = [1, 0]\<rparr>)\<rparr>"
    by (simp add: density_step_def Let_def row3_def dist2_def float_round_values
        unit_kernel_def upt_rec narrow_defs)
  have g: "elems (arrays (foldl (density_step float_round unit_kernel 0) ex_narrow [0, 1]) 33)
             = [1, 2]"
    by (simp add: s1) (simp add: density_step_def Let_def row3_def dist2_def
        float_round_values unit_kernel_def upt_rec narrow_defs)
  have t1: "density_step id unit_kernel 0 ex_narrow 0
      = ex_narrow\<lparr>arrays := narrow_arrays(33 := \<lparr>descr = Some float64, dims = [2], elems = [2, 0]\<rparr>)\<rparr>"
    by (simp add: density_step_def Let_def row3_def dist2_def
        unit_kernel_def upt_rec narrow_defs)
  have h: "elems (arrays (foldl (density_step id unit_kernel 0) ex_narrow [0, 1]) 33) = [2, 1]"
    by (simp add: t1) (simp add: density_step_def Let_def row3_def dist2_def
        unit_kernel_def upt_rec narrow_defs)
  from density_pass_run[OF a b c d e, of unit_kernel idle_step] f cl g h
  show ?thesis by (simp add: elems_after_def)
qed

end
